theory Spec2Isabelle
  imports Complex_Main "HOL-Library.AList"
begin

section \<open>Strings and numbers of the host language\<close>

text \<open>
  A JavaScript string is a sequence of UTF-16 code units; a code unit is modelled as a
  natural number.  \<open>js\<close> turns an ASCII literal of the source into such a sequence.
\<close>

type_synonym jsstring = "nat list"

definition js :: "string \<Rightarrow> jsstring" where
  "js s = map of_char s"

text \<open>
  \<open>String.prototype.trim\<close> strips the ECMAScript WhiteSpace and LineTerminator code
  points from both ends: TAB, LF, VT, FF, CR, SP, NBSP, U+1680, U+2000 to U+200A, U+2028,
  U+2029, U+202F, U+205F, U+3000 and U+FEFF.
\<close>

definition isWhiteSpace :: "nat \<Rightarrow> bool" where
  "isWhiteSpace c =
     (c \<in> {9, 10, 11, 12, 13, 32, 160, 5760, 8232, 8233, 8239, 8287, 12288, 65279}
      \<or> (8192 \<le> c \<and> c \<le> 8202))"

definition trim :: "jsstring \<Rightarrow> jsstring" where
  "trim s = rev (dropWhile isWhiteSpace (rev (dropWhile isWhiteSpace s)))"

text \<open>
  \<open>Number.prototype.toString\<close> on an integer of magnitude below \<open>10\<^sup>2\<^sup>1\<close> (the values
  of \<open>Date.now()\<close>, array indices): its decimal digits, with a minus sign when negative.
\<close>

fun digitsOf :: "nat \<Rightarrow> jsstring" where
  "digitsOf n = (if n < 10 then [48 + n] else digitsOf (n div 10) @ [48 + n mod 10])"

declare digitsOf.simps [simp del]

definition Number_toString :: "int \<Rightarrow> jsstring" where
  "Number_toString n = (if n < 0 then 45 # digitsOf (nat (- n)) else digitsOf (nat n))"

section \<open>Run-time values, the platform, and JSON\<close>

text \<open>
  A \<open>Date\<close> object holds a time value (milliseconds since the epoch) or is an
  "Invalid Date".  The values that flow through the persistence code are JSON values and
  \<open>Date\<close> objects.  Numbers are integers here (message counts, time values, the numbers
  of the canned chart); an object is its list of properties in insertion order.
\<close>

datatype jsdate = TimeValue int | InvalidDate

datatype val =
    VNull
  | VBool bool
  | VNum int
  | VStr jsstring
  | VDate jsdate
  | VArr "val list"
  | VObj "(jsstring \<times> val) list"

datatype jsError = SyntaxError | TypeError | RangeError

text \<open>
  The two services of the JavaScript engine whose result depends on text formats are
  parameters of the model: \<open>Date.prototype.toISOString\<close> on a valid time value, and the
  \<open>Date\<close> constructor applied to one argument (\<open>None\<close> is \<open>undefined\<close>), which may
  throw while converting an object to a primitive.
\<close>

record platform =
  Date_toISOString :: "int \<Rightarrow> jsstring"
  Date_new :: "val option \<Rightarrow> jsError + jsdate"

text \<open>
  \<open>JSON.stringify(sessions, replacer)\<close>, lines 53 to 56.  For every property the engine
  first calls the value's \<open>toJSON\<close> method (only \<open>Date\<close> has one: the ISO string, or
  \<open>null\<close> for an Invalid Date), then the replacer of the source,
  \<^verbatim>\<open>if (key === 'timestamp' && value instanceof Date) return value.toISOString(); return value;\<close>
  and then descends into the result.  An array element's key is its index.
\<close>

definition toJSON :: "platform \<Rightarrow> val \<Rightarrow> val" where
  "toJSON P v = (case v of
      VDate (TimeValue t) \<Rightarrow> VStr (Date_toISOString P t)
    | VDate InvalidDate \<Rightarrow> VNull
    | _ \<Rightarrow> v)"

definition replacer :: "platform \<Rightarrow> jsstring \<Rightarrow> val \<Rightarrow> jsError + val" where
  "replacer P key v = (case v of
      VDate d \<Rightarrow>
        (if key = js ''timestamp'' then
           (case d of
              TimeValue t \<Rightarrow> Inr (VStr (Date_toISOString P t))
            | InvalidDate \<Rightarrow> Inl RangeError)
         else Inr v)
    | _ \<Rightarrow> Inr v)"

lemma size_replacer: "replacer P key (toJSON P v) = Inr v' \<Longrightarrow> size v' \<le> size v"
  by (auto simp: replacer_def toJSON_def split: val.splits jsdate.splits if_splits)

function serializeJSONProperty :: "platform \<Rightarrow> jsstring \<Rightarrow> val \<Rightarrow> jsError + val"
  and serializeValue :: "platform \<Rightarrow> val \<Rightarrow> jsError + val"
  and serializeElements :: "platform \<Rightarrow> nat \<Rightarrow> val list \<Rightarrow> jsError + val list"
  and serializeProperties ::
    "platform \<Rightarrow> (jsstring \<times> val) list \<Rightarrow> jsError + (jsstring \<times> val) list"
where
  "serializeJSONProperty P key v =
     (case replacer P key (toJSON P v) of
        Inl e \<Rightarrow> Inl e
      | Inr v' \<Rightarrow> serializeValue P v')"
| "serializeValue P (VArr xs) =
     (case serializeElements P 0 xs of Inl e \<Rightarrow> Inl e | Inr ys \<Rightarrow> Inr (VArr ys))"
| "serializeValue P (VObj ps) =
     (case serializeProperties P ps of Inl e \<Rightarrow> Inl e | Inr qs \<Rightarrow> Inr (VObj qs))"
| "serializeValue P (VDate d) = Inr (VObj [])"
| "serializeValue P VNull = Inr VNull"
| "serializeValue P (VBool b) = Inr (VBool b)"
| "serializeValue P (VNum n) = Inr (VNum n)"
| "serializeValue P (VStr s) = Inr (VStr s)"
| "serializeElements P i [] = Inr []"
| "serializeElements P i (x # xs) =
     (case serializeJSONProperty P (Number_toString (int i)) x of
        Inl e \<Rightarrow> Inl e
      | Inr y \<Rightarrow>
          (case serializeElements P (i + 1) xs of
             Inl e \<Rightarrow> Inl e
           | Inr ys \<Rightarrow> Inr (y # ys)))"
| "serializeProperties P [] = Inr []"
| "serializeProperties P (p # ps) =
     (case serializeJSONProperty P (fst p) (snd p) of
        Inl e \<Rightarrow> Inl e
      | Inr y \<Rightarrow>
          (case serializeProperties P ps of
             Inl e \<Rightarrow> Inl e
           | Inr qs \<Rightarrow> Inr ((fst p, y) # qs)))"
  by pat_completeness auto
termination
  apply (relation "measure (\<lambda>a. case a of
       Inl (Inl (P, key, v)) \<Rightarrow> 2 * size v + 1
     | Inl (Inr (P, v)) \<Rightarrow> 2 * size v
     | Inr (Inl (P, i, xs)) \<Rightarrow> 2 * size_list size xs + 1
     | Inr (Inr (P, ps)) \<Rightarrow> 2 * size_list (size_prod (\<lambda>x. 0) size) ps + 1)")
  apply (auto dest: size_replacer)
  done

text \<open>
  The text held by the storage slot is represented by what \<open>JSON.parse\<close> makes of it:
  the empty text, a non-empty text that \<open>JSON.parse\<close> rejects with a SyntaxError, or a
  text that parses to a value.  \<open>JSON.stringify\<close> yields a text of the third kind, which
  parses back to the serialised tree.  A slot that was never written is \<open>None\<close>
  (\<open>getItem\<close> returns \<open>null\<close>).
\<close>

datatype storedText = EmptyText | NotJSON | JSONText val

type_synonym storage = "storedText option"

definition JSON_stringify :: "platform \<Rightarrow> val \<Rightarrow> jsError + storedText" where
  "JSON_stringify P v =
     (case serializeJSONProperty P [] v of Inl e \<Rightarrow> Inl e | Inr d \<Rightarrow> Inr (JSONText d))"

definition JSON_parse :: "storedText \<Rightarrow> jsError + val" where
  "JSON_parse t = (case t of JSONText v \<Rightarrow> Inr v | _ \<Rightarrow> Inl SyntaxError)"

section \<open>The data model (lines 19 to 34)\<close>

text \<open>
  The interfaces \<open>Message\<close> and \<open>ChatSession\<close>.  Both have fields \<open>id\<close> and
  \<open>timestamp\<close>; the fields of a message that clash carry the suffix \<open>_m\<close>, those of a
  session the suffix \<open>_s\<close>.  \<open>messageCount\<close> and array lengths are integers.
\<close>

datatype messageType = User | Bot

record Message =
  id_m :: jsstring
  type_m :: messageType
  content :: jsstring
  timestamp_m :: jsdate
  chartSpec :: "val option"
  tableData :: "val option"

record ChatSession =
  id_s :: jsstring
  title :: jsstring
  timestamp_s :: jsdate
  messageCount :: int
  messages_s :: "Message list"

text \<open>
  The run-time object of a typed message or session: its properties in the order in which
  the object literals of the source list them.  An optional payload that is absent is no
  property at all.
\<close>

definition valOfMessage :: "Message \<Rightarrow> val" where
  "valOfMessage m = VObj
     ([(js ''id'', VStr (id_m m)),
       (js ''type'', VStr (case type_m m of User \<Rightarrow> js ''user'' | Bot \<Rightarrow> js ''bot'')),
       (js ''content'', VStr (content m)),
       (js ''timestamp'', VDate (timestamp_m m))]
      @ (case chartSpec m of None \<Rightarrow> [] | Some c \<Rightarrow> [(js ''chartSpec'', c)])
      @ (case tableData m of None \<Rightarrow> [] | Some t \<Rightarrow> [(js ''tableData'', t)]))"

definition valOfSession :: "ChatSession \<Rightarrow> val" where
  "valOfSession s = VObj
     [(js ''id'', VStr (id_s s)),
      (js ''title'', VStr (title s)),
      (js ''timestamp'', VDate (timestamp_s s)),
      (js ''messageCount'', VNum (messageCount s)),
      (js ''messages'', VArr (map valOfMessage (messages_s s)))]"

section \<open>The session store (lines 52 to 77)\<close>

text \<open>
  \<open>saveChatSessions\<close> overwrites the slot with the serialised list.  Were
  \<open>JSON.stringify\<close> to throw, \<open>setItem\<close> would not run and the slot would keep its
  content; lemma \<open>JSON_stringify_returns\<close> below shows that it never throws.
\<close>

definition saveChatSessions :: "platform \<Rightarrow> ChatSession list \<Rightarrow> storage \<Rightarrow> storage" where
  "saveChatSessions P sessions slot =
     (case JSON_stringify P (VArr (map valOfSession sessions)) of
        Inr text \<Rightarrow> Some text
      | Inl e \<Rightarrow> slot)"

text \<open>
  Reading a property of a value: \<open>null\<close> has none and the access throws a TypeError; an
  object yields the property or \<open>undefined\<close> (\<open>None\<close>); the other values have no
  property named \<open>timestamp\<close> or \<open>messages\<close>, the only names read here.
\<close>

definition getProp :: "jsstring \<Rightarrow> val \<Rightarrow> jsError + val option" where
  "getProp k v = (case v of
      VNull \<Rightarrow> Inl TypeError
    | VObj ps \<Rightarrow> Inr (map_of ps k)
    | _ \<Rightarrow> Inr None)"

text \<open>
  The object spread \<open>{...x}\<close> copies the own enumerable properties: those of an object,
  the indexed elements of an array, the indexed characters of a string, none of \<open>null\<close>,
  a boolean or a number.
\<close>

definition indexKeys :: "nat \<Rightarrow> jsstring list" where
  "indexKeys n = map (\<lambda>i. Number_toString (int i)) [0..<n]"

definition spread :: "val \<Rightarrow> (jsstring \<times> val) list" where
  "spread v = (case v of
      VObj ps \<Rightarrow> ps
    | VArr xs \<Rightarrow> zip (indexKeys (length xs)) xs
    | VStr s \<Rightarrow> zip (indexKeys (length s)) (map (\<lambda>c. VStr [c]) s)
    | _ \<Rightarrow> [])"

text \<open>\<open>Array.prototype.map\<close> with a callback that may throw: the first throw ends it.\<close>

fun mapE :: "('a \<Rightarrow> jsError + 'b) \<Rightarrow> 'a list \<Rightarrow> jsError + 'b list" where
  "mapE f [] = Inr []"
| "mapE f (x # xs) =
     (case f x of
        Inl e \<Rightarrow> Inl e
      | Inr y \<Rightarrow> (case mapE f xs of Inl e \<Rightarrow> Inl e | Inr ys \<Rightarrow> Inr (y # ys)))"

text \<open>
  Lines 67 to 70, the inner callback:
  \<^verbatim>\<open>(msg) => ({ ...msg, timestamp: new Date(msg.timestamp) })\<close>.
\<close>

definition reviveMessage :: "platform \<Rightarrow> val \<Rightarrow> jsError + val" where
  "reviveMessage P msg =
     (case getProp (js ''timestamp'') msg of
        Inl e \<Rightarrow> Inl e
      | Inr t \<Rightarrow>
          (case Date_new P t of
             Inl e \<Rightarrow> Inl e
           | Inr d \<Rightarrow> Inr (VObj (AList.update (js ''timestamp'') (VDate d) (spread msg)))))"

text \<open>
  \<^verbatim>\<open>session.messages?.map(...) || []\<close>: \<open>undefined\<close> and \<open>null\<close> short-circuit to
  \<open>undefined\<close> and give \<open>[]\<close>; an array is mapped (and is truthy even when empty); any
  other value has no callable \<open>map\<close>, and the call throws a TypeError.
\<close>

definition reviveMessages :: "platform \<Rightarrow> val option \<Rightarrow> jsError + val list" where
  "reviveMessages P m = (case m of
      None \<Rightarrow> Inr []
    | Some VNull \<Rightarrow> Inr []
    | Some (VArr ms) \<Rightarrow> mapE (reviveMessage P) ms
    | Some _ \<Rightarrow> Inl TypeError)"

text \<open>Lines 64 to 71, the outer callback.\<close>

definition reviveSession :: "platform \<Rightarrow> val \<Rightarrow> jsError + val" where
  "reviveSession P session =
     (case getProp (js ''timestamp'') session of
        Inl e \<Rightarrow> Inl e
      | Inr t \<Rightarrow>
          (case Date_new P t of
             Inl e \<Rightarrow> Inl e
           | Inr d \<Rightarrow>
               (case getProp (js ''messages'') session of
                  Inl e \<Rightarrow> Inl e
                | Inr m \<Rightarrow>
                    (case reviveMessages P m of
                       Inl e \<Rightarrow> Inl e
                     | Inr msgs \<Rightarrow>
                         Inr (VObj (AList.update (js ''messages'') (VArr msgs)
                                (AList.update (js ''timestamp'') (VDate d)
                                   (spread session))))))))"

text \<open>
  The body of the \<open>try\<close> block, lines 61 to 72.  \<open>if (saved)\<close> is false for \<open>null\<close> and
  for the empty text; \<open>parsed.map\<close> is callable only when \<open>parsed\<close> is an array.  The
  result \<open>None\<close> means that the block fell through without returning.
\<close>

definition loadChatSessions_try :: "platform \<Rightarrow> storage \<Rightarrow> jsError + val list option" where
  "loadChatSessions_try P saved = (case saved of
      None \<Rightarrow> Inr None
    | Some EmptyText \<Rightarrow> Inr None
    | Some text \<Rightarrow>
        (case JSON_parse text of
           Inl e \<Rightarrow> Inl e
         | Inr (VArr sessions) \<Rightarrow>
             (case mapE (reviveSession P) sessions of
                Inl e \<Rightarrow> Inl e
              | Inr loaded \<Rightarrow> Inr (Some loaded))
         | Inr _ \<Rightarrow> Inl TypeError))"

text \<open>
  \<open>loadChatSessions\<close>: the \<open>catch\<close> clause logs the error and falls through to
  \<open>return []\<close>.  The sum type of the result records whether an exception leaves the
  function.
\<close>

definition loadChatSessions :: "platform \<Rightarrow> storage \<Rightarrow> jsError + val list" where
  "loadChatSessions P saved = (case loadChatSessions_try P saved of
      Inl e \<Rightarrow> Inr []
    | Inr None \<Rightarrow> Inr []
    | Inr (Some loaded) \<Rightarrow> Inr loaded)"

section \<open>A reference platform\<close>

text \<open>
  One platform on which the model can be run: \<open>toISOString\<close> prints
  \<open>YYYY-MM-DDTHH:mm:ss.sssZ\<close> in the proleptic Gregorian calendar (with a sign and six
  year digits outside the years 0 to 9999), and the \<open>Date\<close> constructor follows
  ECMAScript on \<open>undefined\<close>, \<open>null\<close>, booleans, numbers, dates and strings in
  exactly that format.  It is stricter than an engine elsewhere: every other string gives an
  Invalid Date here, although engines also parse shorter ISO forms, the hour 24:00,
  overflowing days and formats of their own; so does every array, which an engine converts
  to a string and parses.  An object gives an Invalid Date (its default string
  \<open>[object Object]\<close> is no date), unless it has a property \<open>toString\<close>, which after
  \<open>JSON.parse\<close> is not callable, so that the conversion throws a TypeError.  The
  properties below use this platform only on \<open>undefined\<close>, on strings it has printed
  and on objects.
\<close>

definition civilFromDays :: "int \<Rightarrow> int \<times> int \<times> int" where
  "civilFromDays z =
     (let z1 = z + 719468;
          era = z1 div 146097;
          doe = z1 mod 146097;
          yoe = (doe - doe div 1460 + doe div 36524 - doe div 146096) div 365;
          doy = doe - (365 * yoe + yoe div 4 - yoe div 100);
          mp = (5 * doy + 2) div 153;
          d = doy - (153 * mp + 2) div 5 + 1;
          m = (if mp < 10 then mp + 3 else mp - 9);
          y = yoe + era * 400 + (if m \<le> 2 then 1 else 0)
      in (y, m, d))"

definition daysFromCivil :: "int \<Rightarrow> int \<Rightarrow> int \<Rightarrow> int" where
  "daysFromCivil y m d =
     (let y1 = (if m \<le> 2 then y - 1 else y);
          era = y1 div 400;
          yoe = y1 mod 400;
          doy = (153 * (if m > 2 then m - 3 else m + 9) + 2) div 5 + d - 1;
          doe = yoe * 365 + yoe div 4 - yoe div 100 + doy
      in era * 146097 + doe - 719468)"

definition pad :: "nat \<Rightarrow> int \<Rightarrow> jsstring" where
  "pad w n = map (\<lambda>p. 48 + nat (n div p mod 10))
               (drop (6 - w) [100000, 10000, 1000, 100, 10, 1])"

definition isoString :: "int \<Rightarrow> jsstring" where
  "isoString t =
     (let (y, m, d) = civilFromDays (t div 86400000);
          r = t mod 86400000;
          year = (if 0 \<le> y \<and> y \<le> 9999 then pad 4 y
                  else (if y < 0 then 45 else 43) # pad 6 \<bar>y\<bar>)
      in year @ [45] @ pad 2 m @ [45] @ pad 2 d @ [84]
         @ pad 2 (r div 3600000) @ [58] @ pad 2 (r div 60000 mod 60) @ [58]
         @ pad 2 (r div 1000 mod 60) @ [46] @ pad 3 (r mod 1000) @ [90])"

fun digitsValue :: "int \<Rightarrow> jsstring \<Rightarrow> int option" where
  "digitsValue acc [] = Some acc"
| "digitsValue acc (c # cs) =
     (if 48 \<le> c \<and> c \<le> 57 then digitsValue (10 * acc + int (c - 48)) cs else None)"

definition daysInMonth :: "int \<Rightarrow> int \<Rightarrow> int" where
  "daysInMonth y m =
     (if m = 2 then (if y mod 4 = 0 \<and> (y mod 100 \<noteq> 0 \<or> y mod 400 = 0) then 29 else 28)
      else if m \<in> {4, 6, 9, 11} then 30 else 31)"

definition parseISO :: "jsstring \<Rightarrow> jsdate" where
  "parseISO s =
     (let expanded = (s \<noteq> [] \<and> (hd s = 43 \<or> hd s = 45));
          yearDigits = (if expanded then take 6 (tl s) else take 4 s);
          rest = drop (if expanded then 7 else 4) s
      in if length yearDigits \<noteq> (if expanded then 6 else 4) \<or> length rest \<noteq> 20
            \<or> map (\<lambda>i. rest ! i) [0, 3, 6, 9, 12, 15, 19] \<noteq> [45, 45, 84, 58, 58, 46, 90]
         then InvalidDate
         else
           (case map (digitsValue 0)
                   [yearDigits, take 2 (drop 1 rest), take 2 (drop 4 rest),
                    take 2 (drop 7 rest), take 2 (drop 10 rest), take 2 (drop 13 rest),
                    take 3 (drop 16 rest)] of
              [Some ya, Some m, Some d, Some h, Some mi, Some sec, Some ms] \<Rightarrow>
                (let y = (if expanded \<and> hd s = 45 then - ya else ya);
                     t = daysFromCivil y m d * 86400000 + h * 3600000 + mi * 60000
                         + sec * 1000 + ms
                 in if m < 1 \<or> 12 < m \<or> d < 1 \<or> daysInMonth y m < d \<or> 23 < h \<or> 59 < mi
                       \<or> 59 < sec \<or> (expanded \<and> hd s = 45 \<and> ya = 0)
                       \<or> 8640000000000000 < \<bar>t\<bar>
                    then InvalidDate else TimeValue t)
            | _ \<Rightarrow> InvalidDate))"

definition newDate :: "val option \<Rightarrow> jsError + jsdate" where
  "newDate arg = (case arg of
      None \<Rightarrow> Inr InvalidDate
    | Some VNull \<Rightarrow> Inr (TimeValue 0)
    | Some (VBool b) \<Rightarrow> Inr (TimeValue (if b then 1 else 0))
    | Some (VNum n) \<Rightarrow> Inr (if 8640000000000000 < \<bar>n\<bar> then InvalidDate else TimeValue n)
    | Some (VStr s) \<Rightarrow> Inr (parseISO s)
    | Some (VDate d) \<Rightarrow> Inr d
    | Some (VArr xs) \<Rightarrow> Inr InvalidDate
    | Some (VObj ps) \<Rightarrow>
        (if js ''toString'' \<in> set (map fst ps) then Inl TypeError else Inr InvalidDate))"

definition refPlatform :: platform where
  "refPlatform = \<lparr>Date_toISOString = isoString, Date_new = newDate\<rparr>"

section \<open>The transcript controller (component \<open>BIAssistant\<close>, lines 36 to 397)\<close>

text \<open>
  The state of the page: the \<open>useState\<close> cells of \<open>BIAssistant\<close> that the handlers
  read or write (lines 38 to 44), the storage slot, the delays of the \<open>setTimeout\<close>
  callbacks that \<open>handleSendMessage\<close> has scheduled and that have not run yet, and the two
  cells of the \<open>ChatHistory\<close> component (lines 815 and 816).
\<close>

record appState =
  messages :: "Message list"
  inputMessage :: jsstring
  isTyping :: bool
  currentSessionId :: jsstring
  chatSessions :: "ChatSession list"
  localStorage :: storage
  timeouts :: "int list"
  editingSessionId :: "jsstring option"
  editTitle :: jsstring

definition initialState :: "storage \<Rightarrow> appState" where
  "initialState slot =
     \<lparr>messages = [], inputMessage = [], isTyping = False, currentSessionId = [],
      chatSessions = [], localStorage = slot, timeouts = [],
      editingSessionId = None, editTitle = []\<rparr>"

text \<open>
  \<open>saveCurrentSession\<close>, lines 79 to 91.  A string is truthy when it is not empty.
\<close>

definition saveCurrentSession :: "platform \<Rightarrow> appState \<Rightarrow> appState" where
  "saveCurrentSession P st =
     (if currentSessionId st \<noteq> [] \<and> length (messages st) > 0 then
        (let updated = map (\<lambda>session.
               if id_s session = currentSessionId st
               then session\<lparr>messages_s := messages st,
                            messageCount := int (length (messages st))\<rparr>
               else session) (chatSessions st)
         in st\<lparr>chatSessions := updated,
                localStorage := saveChatSessions P updated (localStorage st)\<rparr>)
      else st)"

text \<open>
  The mount effect, lines 94 to 118.  \<open>savedSessions\<close> is what \<open>loadChatSessions\<close>
  returned, at its declared type \<open>ChatSession[]\<close>; the two clock readings are those of
  the two \<open>new Date()\<close> of the default session, in the order of evaluation.
\<close>

definition initialSession :: "int \<Rightarrow> int \<Rightarrow> ChatSession" where
  "initialSession t1 t2 =
     \<lparr>id_s = js ''1'',
      title = js ''BI Assistant Chat'',
      timestamp_s = TimeValue t1,
      messageCount = 1,
      messages_s =
        [\<lparr>id_m = js ''1'', type_m = Bot,
          content = js ''Hello! I'm your Business Intelligence assistant. I can help you visualize data, analyze trends, and generate insights. Ask me anything about your data!'',
          timestamp_m = TimeValue t2, chartSpec = None, tableData = None\<rparr>]\<rparr>"

definition initEffect :: "platform \<Rightarrow> int \<Rightarrow> int \<Rightarrow> ChatSession list \<Rightarrow> appState \<Rightarrow> appState" where
  "initEffect P t1 t2 savedSessions st =
     (if length savedSessions > 0 then
        st\<lparr>chatSessions := savedSessions,
           currentSessionId := id_s (hd savedSessions),
           messages := messages_s (hd savedSessions)\<rparr>
      else
        st\<lparr>chatSessions := [initialSession t1 t2],
           currentSessionId := id_s (initialSession t1 t2),
           messages := messages_s (initialSession t1 t2),
           localStorage := saveChatSessions P [initialSession t1 t2] (localStorage st)\<rparr>)"

text \<open>The effect of lines 120 to 124, with dependencies \<open>[messages, currentSessionId]\<close>.\<close>

definition syncEffect :: "platform \<Rightarrow> appState \<Rightarrow> appState" where
  "syncEffect P st =
     (if currentSessionId st \<noteq> [] \<and> length (messages st) > 0
      then saveCurrentSession P st else st)"

text \<open>
  After an event handler has run, React renders again and runs that effect when one of its
  dependencies has changed.  React compares the id by value and the transcript by the
  identity of the array; the handlers hand the transcript over unchanged or build a new
  array with another content, so the comparison is by value here.
\<close>

definition afterRender :: "platform \<Rightarrow> appState \<Rightarrow> appState \<Rightarrow> appState" where
  "afterRender P old new =
     (if messages new = messages old \<and> currentSessionId new = currentSessionId old
      then new else syncEffect P new)"

text \<open>
  \<open>handleNewChat\<close>, lines 136 to 159.  The clock is read three times: \<open>new Date()\<close> of
  the greeting, \<open>Date.now()\<close> of the id, \<open>new Date()\<close> of the session.
\<close>

definition newChatGreeting :: "int \<Rightarrow> Message" where
  "newChatGreeting t =
     \<lparr>id_m = js ''1'', type_m = Bot,
      content = js ''Hello! I'm your Business Intelligence assistant. What insights can I help you discover today?'',
      timestamp_m = TimeValue t, chartSpec = None, tableData = None\<rparr>"

definition handleNewChat :: "platform \<Rightarrow> int \<Rightarrow> int \<Rightarrow> int \<Rightarrow> appState \<Rightarrow> appState" where
  "handleNewChat P t1 t2 t3 st =
     (let initialMessage = newChatGreeting t1;
          newSession = \<lparr>id_s = Number_toString t2, title = js ''New BI Chat'',
                        timestamp_s = TimeValue t3, messageCount = 1,
                        messages_s = [initialMessage]\<rparr>;
          updated = newSession # chatSessions st
      in st\<lparr>chatSessions := updated,
             localStorage := saveChatSessions P updated (localStorage st),
             currentSessionId := id_s newSession,
             messages := [initialMessage]\<rparr>)"

text \<open>
  \<open>handleSelectSession\<close>, lines 161 to 167.  \<open>find\<close> returns the first session with
  the id, or \<open>undefined\<close>.
\<close>

definition handleSelectSession :: "jsstring \<Rightarrow> appState \<Rightarrow> appState" where
  "handleSelectSession sessionId st =
     (let st1 = st\<lparr>currentSessionId := sessionId\<rparr>
      in case find (\<lambda>s. id_s s = sessionId) (chatSessions st) of
           Some selectedSession \<Rightarrow> st1\<lparr>messages := messages_s selectedSession\<rparr>
         | None \<Rightarrow> st1)"

text \<open>
  \<open>handleDeleteSession\<close>, lines 169 to 198.  The clock readings are \<open>Date.now()\<close> of
  the id and the two \<open>new Date()\<close> of the synthesised session and its greeting.
\<close>

definition deleteFallbackSession :: "int \<Rightarrow> int \<Rightarrow> int \<Rightarrow> ChatSession" where
  "deleteFallbackSession t1 t2 t3 =
     \<lparr>id_s = Number_toString t1,
      title = js ''BI Assistant Chat'',
      timestamp_s = TimeValue t2,
      messageCount = 1,
      messages_s =
        [\<lparr>id_m = js ''1'', type_m = Bot,
          content = js ''Hello! I'm your Business Intelligence assistant. What can I help you analyze?'',
          timestamp_m = TimeValue t3, chartSpec = None, tableData = None\<rparr>]\<rparr>"

definition handleDeleteSession ::
    "platform \<Rightarrow> int \<Rightarrow> int \<Rightarrow> int \<Rightarrow> jsstring \<Rightarrow> appState \<Rightarrow> appState" where
  "handleDeleteSession P t1 t2 t3 sessionId st =
     (let updated = filter (\<lambda>s. id_s s \<noteq> sessionId) (chatSessions st);
          st1 = st\<lparr>localStorage := saveChatSessions P updated (localStorage st)\<rparr>
      in if currentSessionId st = sessionId \<and> length updated > 0 then
           st1\<lparr>currentSessionId := id_s (hd updated),
                messages := messages_s (hd updated),
                chatSessions := updated\<rparr>
         else if length updated = 0 then
           (let newSession = deleteFallbackSession t1 t2 t3
            in st1\<lparr>currentSessionId := id_s newSession,
                    messages := messages_s newSession,
                    localStorage := saveChatSessions P [newSession] (localStorage st1),
                    chatSessions := [newSession]\<rparr>)
         else st1\<lparr>chatSessions := updated\<rparr>)"

text \<open>
  \<open>handleSendMessage\<close>, lines 200 to 213: the synchronous part, which ends by scheduling
  the callback with a delay of 2000 ms.  The clock readings are \<open>Date.now()\<close> of the id
  and \<open>new Date()\<close> of the timestamp.
\<close>

definition handleSendMessage :: "int \<Rightarrow> int \<Rightarrow> appState \<Rightarrow> appState" where
  "handleSendMessage t1 t2 st =
     (if trim (inputMessage st) = [] then st
      else
        (let userMessage = \<lparr>id_m = Number_toString t1, type_m = User,
                             content = trim (inputMessage st),
                             timestamp_m = TimeValue t2,
                             chartSpec = None, tableData = None\<rparr>
         in st\<lparr>messages := messages st @ [userMessage],
                inputMessage := [],
                isTyping := True,
                timeouts := timeouts st @ [2000]\<rparr>))"

text \<open>The three canned responses, lines 219 to 289.\<close>

definition salesRow :: "string \<Rightarrow> int \<Rightarrow> int \<Rightarrow> val" where
  "salesRow month sales profit =
     VObj [(js ''month'', VStr (js month)), (js ''sales'', VNum sales),
           (js ''profit'', VNum profit)]"

definition chartResponseSpec :: val where
  "chartResponseSpec = VObj
     [(js ''$schema'', VStr (js ''https://vega.github.io/schema/vega-lite/v5.json'')),
      (js ''description'', VStr (js ''Sales trends visualization'')),
      (js ''data'', VObj [(js ''values'', VArr
         [salesRow ''Jan'' 28000 12000, salesRow ''Feb'' 35000 15000,
          salesRow ''Mar'' 42000 18000, salesRow ''Apr'' 38000 16500,
          salesRow ''May'' 45000 20000, salesRow ''Jun'' 52000 23000])]),
      (js ''mark'', VObj [(js ''type'', VStr (js ''line'')), (js ''point'', VBool True),
                          (js ''tooltip'', VBool True)]),
      (js ''encoding'', VObj
         [(js ''x'', VObj [(js ''field'', VStr (js ''month'')),
                           (js ''type'', VStr (js ''ordinal'')),
                           (js ''title'', VStr (js ''Month''))]),
          (js ''y'', VObj [(js ''field'', VStr (js ''sales'')),
                           (js ''type'', VStr (js ''quantitative'')),
                           (js ''title'', VStr (js ''Sales ($)''))]),
          (js ''color'', VObj [(js ''value'', VStr (js ''hsl(var(--primary))''))])]),
      (js ''width'', VNum 600),
      (js ''height'', VNum 300)]"

definition tableResponseData :: val where
  "tableResponseData = VObj
     [(js ''headers'', VArr (map (\<lambda>c. VStr (js c))
         [''Product'', ''Revenue'', ''Units Sold'', ''Growth''])),
      (js ''rows'', VArr (map (\<lambda>row. VArr (map (\<lambda>c. VStr (js c)) row))
         [[''Product A'', ''$125,000'', ''2,450'', ''+15%''],
          [''Product B'', ''$98,000'', ''1,820'', ''+8%''],
          [''Product C'', ''$87,500'', ''1,650'', ''+22%''],
          [''Product D'', ''$76,200'', ''1,420'', ''+5%''],
          [''Product E'', ''$65,800'', ''1,230'', ''+18%'']]))]"

text \<open>The text of the third response; 10 is the line feed and 8226 the bullet U+2022.\<close>

definition textResponseContent :: jsstring where
  "textResponseContent =
     js ''Based on the analysis of your data:'' @ [10, 10]
     @ js ''**Key Insights:**'' @ [10]
     @ [8226] @ js '' Revenue has grown by 18% compared to the previous quarter'' @ [10]
     @ [8226] @ js '' Customer acquisition costs decreased by 12%'' @ [10]
     @ [8226] @ js '' Product A shows the highest ROI at 35%'' @ [10]
     @ [8226] @ js '' Regional performance varies significantly, with the West region leading at 42% growth'' @ [10, 10]
     @ js ''**Recommendations:**'' @ [10]
     @ js ''1. Increase marketing budget for Product A due to high ROI'' @ [10]
     @ js ''2. Focus on customer retention strategies in underperforming regions'' @ [10]
     @ js ''3. Optimize pricing strategy for Product C to improve margins'' @ [10]
     @ js ''4. Consider expanding distribution channels in the West region'' @ [10, 10]
     @ js ''Would you like me to create a detailed visualization or drill down into any specific metric?''"

text \<open>
  The response built by the callback, lines 216 to 289.  \<open>r\<close> is the number that
  \<open>Math.random() * 3\<close> evaluates to (a double, hence a rational, with \<open>0 \<le> r < 3\<close>),
  so that \<open>responseType\<close> is its floor; \<open>t1\<close> is \<open>Date.now()\<close> and \<open>t2\<close> the time of
  \<open>new Date()\<close>.
\<close>

definition botResponse :: "rat \<Rightarrow> int \<Rightarrow> int \<Rightarrow> Message" where
  "botResponse r t1 t2 =
     (let responseType = \<lfloor>r\<rfloor>
      in if responseType = 0 then
           \<lparr>id_m = Number_toString (t1 + 1), type_m = Bot,
            content = js ''Here's a visualization of the sales trends over the last quarter:'',
            timestamp_m = TimeValue t2,
            chartSpec = Some chartResponseSpec, tableData = None\<rparr>
         else if responseType = 1 then
           \<lparr>id_m = Number_toString (t1 + 1), type_m = Bot,
            content = js ''Here's a breakdown of the top performing products:'',
            timestamp_m = TimeValue t2,
            chartSpec = None, tableData = Some tableResponseData\<rparr>
         else
           \<lparr>id_m = Number_toString (t1 + 1), type_m = Bot,
            content = textResponseContent,
            timestamp_m = TimeValue t2,
            chartSpec = None, tableData = None\<rparr>)"

text \<open>The callback of \<open>setTimeout\<close>, lines 215 to 293, once its delay has elapsed.\<close>

definition timeoutCallback :: "rat \<Rightarrow> int \<Rightarrow> int \<Rightarrow> appState \<Rightarrow> appState" where
  "timeoutCallback r t1 t2 st =
     st\<lparr>messages := messages st @ [botResponse r t1 t2], isTyping := False\<rparr>"

text \<open>\<open>handleKeyPress\<close>, lines 296 to 301.\<close>

definition handleKeyPress :: "jsstring \<Rightarrow> bool \<Rightarrow> int \<Rightarrow> int \<Rightarrow> appState \<Rightarrow> appState" where
  "handleKeyPress key shiftKey t1 t2 st =
     (if key = js ''Enter'' \<and> \<not> shiftKey then handleSendMessage t1 t2 st else st)"

text \<open>\<open>handleRenameSession\<close>, lines 387 to 397.\<close>

definition handleRenameSession :: "platform \<Rightarrow> jsstring \<Rightarrow> jsstring \<Rightarrow> appState \<Rightarrow> appState" where
  "handleRenameSession P sessionId newTitle st =
     (let updated = map (\<lambda>session.
            if id_s session = sessionId then session\<lparr>title := newTitle\<rparr> else session)
            (chatSessions st)
      in st\<lparr>chatSessions := updated,
             localStorage := saveChatSessions P updated (localStorage st)\<rparr>)"

section \<open>The session list (component \<open>ChatHistory\<close>, lines 807 to 835)\<close>

text \<open>\<open>handleStartEdit\<close>, \<open>handleSaveEdit\<close> and \<open>handleCancelEdit\<close>.\<close>

definition handleStartEdit :: "ChatSession \<Rightarrow> appState \<Rightarrow> appState" where
  "handleStartEdit session st =
     st\<lparr>editingSessionId := Some (id_s session), editTitle := title session\<rparr>"

definition handleSaveEdit :: "platform \<Rightarrow> jsstring \<Rightarrow> appState \<Rightarrow> appState" where
  "handleSaveEdit P sessionId st =
     (let st1 = (if trim (editTitle st) \<noteq> []
                 then handleRenameSession P sessionId (trim (editTitle st)) st
                 else st)
      in st1\<lparr>editingSessionId := None\<rparr>)"

definition handleCancelEdit :: "appState \<Rightarrow> appState" where
  "handleCancelEdit st = st\<lparr>editingSessionId := None\<rparr>"

section \<open>Operations and events of the page\<close>

text \<open>
  An operation of the controller as the page performs it: the handler, then the render
  that follows it with the effect of lines 120 to 124.  \<open>renameSession\<close> is the edit field
  of the session list holding \<open>newTitle\<close> when the edit is confirmed; the response arrives
  when the oldest scheduled callback runs.
\<close>

definition newChat :: "platform \<Rightarrow> int \<Rightarrow> int \<Rightarrow> int \<Rightarrow> appState \<Rightarrow> appState" where
  "newChat P t1 t2 t3 st = afterRender P st (handleNewChat P t1 t2 t3 st)"

definition selectSession :: "platform \<Rightarrow> jsstring \<Rightarrow> appState \<Rightarrow> appState" where
  "selectSession P sessionId st = afterRender P st (handleSelectSession sessionId st)"

definition deleteSession ::
    "platform \<Rightarrow> int \<Rightarrow> int \<Rightarrow> int \<Rightarrow> jsstring \<Rightarrow> appState \<Rightarrow> appState" where
  "deleteSession P t1 t2 t3 sessionId st =
     afterRender P st (handleDeleteSession P t1 t2 t3 sessionId st)"

definition renameSession :: "platform \<Rightarrow> jsstring \<Rightarrow> jsstring \<Rightarrow> appState \<Rightarrow> appState" where
  "renameSession P sessionId newTitle st =
     afterRender P st (handleSaveEdit P sessionId (st\<lparr>editTitle := newTitle\<rparr>))"

definition sendMessage :: "platform \<Rightarrow> int \<Rightarrow> int \<Rightarrow> appState \<Rightarrow> appState" where
  "sendMessage P t1 t2 st = afterRender P st (handleSendMessage t1 t2 st)"

definition responseArrives :: "platform \<Rightarrow> rat \<Rightarrow> int \<Rightarrow> int \<Rightarrow> appState \<Rightarrow> appState" where
  "responseArrives P r t1 t2 st =
     (case timeouts st of
        [] \<Rightarrow> st
      | d # ds \<Rightarrow> afterRender P st (timeoutCallback r t1 t2 (st\<lparr>timeouts := ds\<rparr>)))"

text \<open>
  The events that the rendered page can deliver, with the conditions under which the markup
  offers them:
  \<^item> a session row exists for each element of \<open>chatSessions\<close> (line 860); a click on it
    selects the session unless a title is being edited (line 868); its edit and delete
    buttons are shown unless that row is being edited (line 913); its edit field and
    confirm and cancel buttons are shown while that row is being edited (line 873);
  \<^item> the text area is disabled while \<open>isTyping\<close> (line 759), so that it then receives
    neither input nor key presses; the send button is disabled while \<open>isTyping\<close> or when
    the trimmed input is empty (line 764);
  \<^item> a scheduled callback runs once.
\<close>

datatype event =
    NewChat int int int
  | SelectSession jsstring
  | DeleteSession jsstring int int int
  | ChangeInput jsstring
  | ClickSend int int
  | KeyDown jsstring bool int int
  | TimeoutElapsed rat int int
  | StartEdit ChatSession
  | ChangeEditTitle jsstring
  | SaveEdit
  | CancelEdit

definition listed :: "jsstring \<Rightarrow> appState \<Rightarrow> bool" where
  "listed sessionId st = (sessionId \<in> set (map id_s (chatSessions st)))"

definition editingRow :: "appState \<Rightarrow> jsstring option" where
  "editingRow st = (case editingSessionId st of
      None \<Rightarrow> None
    | Some sessionId \<Rightarrow> if listed sessionId st then Some sessionId else None)"

definition dispatch :: "platform \<Rightarrow> event \<Rightarrow> appState \<Rightarrow> appState" where
  "dispatch P ev st = (case ev of
      NewChat t1 t2 t3 \<Rightarrow> newChat P t1 t2 t3 st
    | SelectSession sessionId \<Rightarrow>
        (if listed sessionId st
            \<and> (editingSessionId st = None \<or> editingSessionId st = Some [])
         then selectSession P sessionId st else st)
    | DeleteSession sessionId t1 t2 t3 \<Rightarrow>
        (if listed sessionId st \<and> editingSessionId st \<noteq> Some sessionId
         then deleteSession P t1 t2 t3 sessionId st else st)
    | ChangeInput text \<Rightarrow>
        (if isTyping st then st else afterRender P st (st\<lparr>inputMessage := text\<rparr>))
    | ClickSend t1 t2 \<Rightarrow>
        (if trim (inputMessage st) = [] \<or> isTyping st then st
         else sendMessage P t1 t2 st)
    | KeyDown key shiftKey t1 t2 \<Rightarrow>
        (if isTyping st then st
         else afterRender P st (handleKeyPress key shiftKey t1 t2 st))
    | TimeoutElapsed r t1 t2 \<Rightarrow> responseArrives P r t1 t2 st
    | StartEdit session \<Rightarrow>
        (if session \<in> set (chatSessions st) \<and> editingSessionId st \<noteq> Some (id_s session)
         then afterRender P st (handleStartEdit session st) else st)
    | ChangeEditTitle text \<Rightarrow>
        (case editingRow st of
           None \<Rightarrow> st
         | Some sessionId \<Rightarrow> afterRender P st (st\<lparr>editTitle := text\<rparr>))
    | SaveEdit \<Rightarrow>
        (case editingRow st of
           None \<Rightarrow> st
         | Some sessionId \<Rightarrow> afterRender P st (handleSaveEdit P sessionId st))
    | CancelEdit \<Rightarrow>
        (case editingRow st of
           None \<Rightarrow> st
         | Some sessionId \<Rightarrow> afterRender P st (handleCancelEdit st)))"

text \<open>
  The states of the page: the state after the mount effect, for any content of the storage
  slot that loads as a list of well-typed sessions, and every state that an event leads to.
\<close>

inductive reachable :: "platform \<Rightarrow> appState \<Rightarrow> bool" for P :: platform where
  mounted:
    "loadChatSessions P slot = Inr (map valOfSession savedSessions) \<Longrightarrow>
     reachable P (afterRender P (initialState slot)
                    (initEffect P t1 t2 savedSessions (initialState slot)))"
| step: "reachable P st \<Longrightarrow> reachable P (dispatch P ev st)"

text \<open>The cached count of every session agrees with its transcript.\<close>

definition countsConsistent :: "ChatSession list \<Rightarrow> bool" where
  "countsConsistent sessions =
     list_all (\<lambda>s. messageCount s = int (length (messages_s s))) sessions"

text \<open>The three shapes of a response.\<close>

definition populatedShapes :: "Message \<Rightarrow> bool list" where
  "populatedShapes m =
     [chartSpec m = None \<and> tableData m = None, chartSpec m \<noteq> None, tableData m \<noteq> None]"

section \<open>Notions used by the properties of the session store\<close>

text \<open>A value is plain JSON when it holds no \<open>Date\<close> object.\<close>

fun plain :: "val \<Rightarrow> bool" where
  "plain (VDate d) = False"
| "plain (VArr xs) = list_all plain xs"
| "plain (VObj ps) = list_all (\<lambda>p. plain (snd p)) ps"
| "plain v = True"

text \<open>The payloads of a message, and of all messages of a list of sessions, are plain JSON.\<close>

definition plainMessage :: "Message \<Rightarrow> bool" where
  "plainMessage m =
     ((case chartSpec m of None \<Rightarrow> True | Some c \<Rightarrow> plain c)
      \<and> (case tableData m of None \<Rightarrow> True | Some t \<Rightarrow> plain t))"

definition plainPayloads :: "ChatSession list \<Rightarrow> bool" where
  "plainPayloads S = list_all (\<lambda>s. list_all plainMessage (messages_s s)) S"

text \<open>All timestamps of a list of sessions, and a list with every timestamp replaced.\<close>

definition timestampsOf :: "ChatSession list \<Rightarrow> jsdate list" where
  "timestampsOf S = concat (map (\<lambda>s. timestamp_s s # map timestamp_m (messages_s s)) S)"

definition restoreTimestamps :: "(jsdate \<Rightarrow> jsdate) \<Rightarrow> ChatSession \<Rightarrow> ChatSession" where
  "restoreTimestamps f s =
     s\<lparr>timestamp_s := f (timestamp_s s),
       messages_s := map (\<lambda>m. m\<lparr>timestamp_m := f (timestamp_m m)\<rparr>) (messages_s s)\<rparr>"

text \<open>
  The JSON document of a message and of a session: the run-time object with each
  timestamp replaced by what \<open>toJSON\<close> makes of it.
\<close>

definition messageJSON :: "platform \<Rightarrow> Message \<Rightarrow> val" where
  "messageJSON P m = VObj
     ([(js ''id'', VStr (id_m m)),
       (js ''type'', VStr (case type_m m of User \<Rightarrow> js ''user'' | Bot \<Rightarrow> js ''bot'')),
       (js ''content'', VStr (content m)),
       (js ''timestamp'', toJSON P (VDate (timestamp_m m)))]
      @ (case chartSpec m of None \<Rightarrow> [] | Some c \<Rightarrow> [(js ''chartSpec'', c)])
      @ (case tableData m of None \<Rightarrow> [] | Some t \<Rightarrow> [(js ''tableData'', t)]))"

definition sessionJSON :: "platform \<Rightarrow> ChatSession \<Rightarrow> val" where
  "sessionJSON P s = VObj
     [(js ''id'', VStr (id_s s)),
      (js ''title'', VStr (title s)),
      (js ''timestamp'', toJSON P (VDate (timestamp_s s))),
      (js ''messageCount'', VNum (messageCount s)),
      (js ''messages'', VArr (map (messageJSON P) (messages_s s)))]"

text \<open>
  When reviving a parsed element throws: the property of a value that is not \<open>null\<close>,
  and the elements on which the callbacks of lines 64 to 71 throw.  A message throws when
  it is \<open>null\<close> or the \<open>Date\<close> constructor throws on its timestamp; a session throws
  when it is \<open>null\<close>, the \<open>Date\<close> constructor throws on its timestamp, its
  \<open>messages\<close> are neither absent, \<open>null\<close> nor an array, or one of its messages
  throws.
\<close>

definition propOf :: "jsstring \<Rightarrow> val \<Rightarrow> val option" where
  "propOf k v = (case v of VObj ps \<Rightarrow> map_of ps k | _ \<Rightarrow> None)"

definition messageThrows :: "platform \<Rightarrow> val \<Rightarrow> bool" where
  "messageThrows P msg =
     (msg = VNull \<or> isl (Date_new P (propOf (js ''timestamp'') msg)))"

definition messagesThrow :: "platform \<Rightarrow> val option \<Rightarrow> bool" where
  "messagesThrow P m = (case m of
      None \<Rightarrow> False
    | Some VNull \<Rightarrow> False
    | Some (VArr ms) \<Rightarrow> list_ex (messageThrows P) ms
    | Some _ \<Rightarrow> True)"

definition sessionThrows :: "platform \<Rightarrow> val \<Rightarrow> bool" where
  "sessionThrows P session =
     (session = VNull
      \<or> isl (Date_new P (propOf (js ''timestamp'') session))
      \<or> messagesThrow P (propOf (js ''messages'') session))"

text \<open>Whether a parsed value is an array.\<close>

definition isArray :: "val \<Rightarrow> bool" where
  "isArray v = (case v of VArr xs \<Rightarrow> True | _ \<Rightarrow> False)"

section \<open>Example data\<close>

text \<open>Two sessions and a state of the page in which the first one is active.\<close>


definition exA :: ChatSession where
  "exA = \<lparr>id_s = js ''A'', title = js ''First'', timestamp_s = TimeValue 1700000000000,
          messageCount = 1, messages_s = [newChatGreeting 1700000000000]\<rparr>"

definition exB :: ChatSession where
  "exB = \<lparr>id_s = js ''B'', title = js ''Second'', timestamp_s = TimeValue 1700000050000,
          messageCount = 2,
          messages_s = [newChatGreeting 1700000050000,
            \<lparr>id_m = js ''1700000060000'', type_m = User, content = js ''show me sales'',
             timestamp_m = TimeValue 1700000060000, chartSpec = None, tableData = None\<rparr>]\<rparr>"

definition exState :: appState where
  "exState = \<lparr>messages = messages_s exA, inputMessage = [], isTyping = False,
              currentSessionId = js ''A'', chatSessions = [exA, exB], localStorage = None,
              timeouts = [], editingSessionId = None, editTitle = []\<rparr>"

text \<open>
  A state with a single session; the example state with a question typed into the input;
  the state after mounting on an empty storage slot; and that state after the question
  was typed and sent, while its response is awaited.
\<close>

definition exSingle :: appState where
  "exSingle = \<lparr>messages = messages_s exA, inputMessage = [], isTyping = False,
              currentSessionId = js ''A'', chatSessions = [exA], localStorage = None,
              timeouts = [], editingSessionId = None, editTitle = []\<rparr>"

definition exInput :: appState where
  "exInput = exState\<lparr>inputMessage := js '' show me sales ''\<rparr>"

definition exMounted :: appState where
  "exMounted = afterRender refPlatform (initialState None)
                 (initEffect refPlatform 1 2 [] (initialState None))"

definition exAwaiting :: appState where
  "exAwaiting = dispatch refPlatform (ClickSend 10 11)
                  (dispatch refPlatform (ChangeInput (js ''show me sales'')) exMounted)"

text \<open>
  A stored list: session A and session B, the latter with a chart response and a table
  response appended.
\<close>

definition exStored :: "ChatSession list" where
  "exStored =
     [exA,
      exB\<lparr>messageCount := 4,
          messages_s := messages_s exB
            @ [botResponse 0 1700000061999 1700000062000,
               botResponse (3 / 2) 1700000063999 1700000064000]\<rparr>]"

section \<open>Frame lemmas of the render step\<close>

lemma syncEffect_frame:
  "messages (syncEffect P st) = messages st"
  "currentSessionId (syncEffect P st) = currentSessionId st"
  "inputMessage (syncEffect P st) = inputMessage st"
  "isTyping (syncEffect P st) = isTyping st"
  "timeouts (syncEffect P st) = timeouts st"
  "editingSessionId (syncEffect P st) = editingSessionId st"
  "editTitle (syncEffect P st) = editTitle st"
  by (simp_all add: syncEffect_def saveCurrentSession_def Let_def)

lemma afterRender_frame:
  "messages (afterRender P old new) = messages new"
  "currentSessionId (afterRender P old new) = currentSessionId new"
  "inputMessage (afterRender P old new) = inputMessage new"
  "isTyping (afterRender P old new) = isTyping new"
  "timeouts (afterRender P old new) = timeouts new"
  "editingSessionId (afterRender P old new) = editingSessionId new"
  "editTitle (afterRender P old new) = editTitle new"
  by (simp_all add: afterRender_def syncEffect_frame)

lemma syncEffect_ids:
  "map id_s (chatSessions (syncEffect P st)) = map id_s (chatSessions st)"
  by (simp add: syncEffect_def saveCurrentSession_def Let_def comp_def)

lemma afterRender_ids:
  "map id_s (chatSessions (afterRender P old new)) = map id_s (chatSessions new)"
  by (simp add: afterRender_def syncEffect_ids)

section \<open>Selecting a session\<close>

text \<open>
  \<open>handleSelectSession\<close> on an id that no session has: the look-up finds nothing, the
  transcript and the list stay, and the id is stored as the active one (line 162 runs
  before the look-up).  The page never calls the handler so.
\<close>

lemma find_unlisted:
  "sessionId \<notin> set (map id_s xs) \<Longrightarrow> find (\<lambda>s. id_s s = sessionId) xs = None"
  by (induction xs) auto

lemma handleSelectSession_unlisted:
  "\<not> listed sessionId st \<Longrightarrow>
   handleSelectSession sessionId st = st\<lparr>currentSessionId := sessionId\<rparr>"
  by (simp add: handleSelectSession_def listed_def find_unlisted)

lemma selectSession_unlisted:
  assumes "\<not> listed sessionId st"
  shows "currentSessionId (selectSession P sessionId st) = sessionId"
    and "messages (selectSession P sessionId st) = messages st"
    and "map id_s (chatSessions (selectSession P sessionId st)) = map id_s (chatSessions st)"
  using assms
  by (simp_all add: selectSession_def afterRender_frame afterRender_ids
      handleSelectSession_unlisted)















section \<open>Deleting a session\<close>

text \<open>
  Claim C10.  When \<open>deleteSession\<close> is given an id that is not the active one and some
  session with another id remains, the active id and the displayed transcript are
  unchanged, and the new list is the old one without the sessions of that id: the others
  keep their order and content.
\<close>

theorem deleteSession_inactive_frame:
  assumes "currentSessionId st \<noteq> sessionId"
    and "filter (\<lambda>s. id_s s \<noteq> sessionId) (chatSessions st) \<noteq> []"
  shows "currentSessionId (deleteSession P t1 t2 t3 sessionId st) = currentSessionId st
       \<and> messages (deleteSession P t1 t2 t3 sessionId st) = messages st
       \<and> chatSessions (deleteSession P t1 t2 t3 sessionId st)
           = filter (\<lambda>s. id_s s \<noteq> sessionId) (chatSessions st)"
  using assms
  by (simp add: deleteSession_def handleDeleteSession_def Let_def afterRender_def)

text \<open>The example state, with session A active and session B deleted.\<close>

theorem deleteSession_inactive_frame_witness:
  "currentSessionId exState \<noteq> js ''B''
   \<and> filter (\<lambda>s. id_s s \<noteq> js ''B'') (chatSessions exState) \<noteq> []
   \<and> currentSessionId (deleteSession refPlatform 1 2 3 (js ''B'') exState) = js ''A''
   \<and> messages (deleteSession refPlatform 1 2 3 (js ''B'') exState) = messages_s exA
   \<and> chatSessions (deleteSession refPlatform 1 2 3 (js ''B'') exState) = [exA]"
  using deleteSession_inactive_frame [where st = exState and sessionId = "js ''B''"
      and P = refPlatform and ?t1.0 = 1 and ?t2.0 = 2 and ?t3.0 = 3]
  by (simp add: exState_def exA_def exB_def js_def)

lemma resync_noop:
  assumes "\<forall>s \<in> set xs. id_s s = k \<longrightarrow> messages_s s = ms \<and> messageCount s = int (length ms)"
  shows "map (\<lambda>s. if id_s s = k
                   then s\<lparr>messages_s := ms, messageCount := int (length ms)\<rparr>
                   else s) xs = xs"
  using assms by (intro map_idI) auto

lemma map_resync_same:
  assumes "countsConsistent xs" and "distinct (map id_s xs)" and "xs \<noteq> []"
  shows "map (\<lambda>s. if id_s s = id_s (hd xs)
                   then s\<lparr>messages_s := messages_s (hd xs),
                          messageCount := int (length (messages_s (hd xs)))\<rparr>
                   else s) xs = xs"
proof (rule resync_noop, intro ballI impI)
  fix s
  assume s: "s \<in> set xs" and k: "id_s s = id_s (hd xs)"
  have "inj_on id_s (set xs)"
    using assms(2) by (simp add: distinct_map)
  moreover have "hd xs \<in> set xs"
    using assms(3) by simp
  ultimately have "s = hd xs"
    using s k by (auto dest: inj_onD)
  moreover have "messageCount s = int (length (messages_s s))"
    using assms(1) s by (simp add: countsConsistent_def list_all_iff)
  ultimately show "messages_s s = messages_s (hd xs)
      \<and> messageCount s = int (length (messages_s (hd xs)))"
    by simp
qed

text \<open>
  Claim C5.  When \<open>deleteSession\<close> is given the active id: if sessions with other ids
  remain, the first of them becomes active and its messages become the displayed
  transcript, the list keeps exactly the remaining ids in their order (and is exactly the
  remaining list when the ids were distinct and the cached counts right); if none remains,
  the list becomes the one synthesised session, which is active and whose transcript is
  its single greeting from the assistant.
\<close>

theorem deleteSession_active:
  assumes "currentSessionId st = sessionId"
  shows "(filter (\<lambda>s. id_s s \<noteq> sessionId) (chatSessions st) \<noteq> [] \<longrightarrow>
            currentSessionId (deleteSession P t1 t2 t3 sessionId st)
              = id_s (hd (filter (\<lambda>s. id_s s \<noteq> sessionId) (chatSessions st)))
          \<and> messages (deleteSession P t1 t2 t3 sessionId st)
              = messages_s (hd (filter (\<lambda>s. id_s s \<noteq> sessionId) (chatSessions st)))
          \<and> map id_s (chatSessions (deleteSession P t1 t2 t3 sessionId st))
              = map id_s (filter (\<lambda>s. id_s s \<noteq> sessionId) (chatSessions st))
          \<and> (countsConsistent (chatSessions st) \<and> distinct (map id_s (chatSessions st)) \<longrightarrow>
               chatSessions (deleteSession P t1 t2 t3 sessionId st)
                 = filter (\<lambda>s. id_s s \<noteq> sessionId) (chatSessions st)))
       \<and> (filter (\<lambda>s. id_s s \<noteq> sessionId) (chatSessions st) = [] \<longrightarrow>
            chatSessions (deleteSession P t1 t2 t3 sessionId st) = [deleteFallbackSession t1 t2 t3]
          \<and> currentSessionId (deleteSession P t1 t2 t3 sessionId st)
              = id_s (deleteFallbackSession t1 t2 t3)
          \<and> messages (deleteSession P t1 t2 t3 sessionId st)
              = messages_s (deleteFallbackSession t1 t2 t3)
          \<and> length (messages_s (deleteFallbackSession t1 t2 t3)) = 1
          \<and> type_m (hd (messages_s (deleteFallbackSession t1 t2 t3))) = Bot)"
proof (intro conjI impI)
  let ?rest = "filter (\<lambda>s. id_s s \<noteq> sessionId) (chatSessions st)"
  let ?st' = "deleteSession P t1 t2 t3 sessionId st"
  {
    assume ne: "?rest \<noteq> []"
    have h: "handleDeleteSession P t1 t2 t3 sessionId st
        = st\<lparr>localStorage := saveChatSessions P ?rest (localStorage st),
             currentSessionId := id_s (hd ?rest),
             messages := messages_s (hd ?rest),
             chatSessions := ?rest\<rparr>"
      using assms ne by (simp add: handleDeleteSession_def Let_def)
    show "currentSessionId ?st' = id_s (hd ?rest)"
      by (simp add: deleteSession_def afterRender_frame h)
    show "messages ?st' = messages_s (hd ?rest)"
      by (simp add: deleteSession_def afterRender_frame h)
    show "map id_s (chatSessions ?st') = map id_s ?rest"
      by (simp add: deleteSession_def afterRender_ids h)
    {
      assume c: "countsConsistent (chatSessions st) \<and> distinct (map id_s (chatSessions st))"
      have c1: "countsConsistent ?rest"
        using c by (simp add: countsConsistent_def list_all_iff)
      have c2: "distinct (map id_s ?rest)"
        using c by (simp add: distinct_map_filter)
      show "chatSessions ?st' = ?rest"
        using map_resync_same [OF c1 c2 ne]
        by (simp add: deleteSession_def afterRender_def syncEffect_def
            saveCurrentSession_def Let_def h cong: if_cong)
    }
  }
  {
    assume e: "?rest = []"
    have h: "handleDeleteSession P t1 t2 t3 sessionId st
        = st\<lparr>localStorage := saveChatSessions P [deleteFallbackSession t1 t2 t3]
                 (saveChatSessions P [] (localStorage st)),
             currentSessionId := id_s (deleteFallbackSession t1 t2 t3),
             messages := messages_s (deleteFallbackSession t1 t2 t3),
             chatSessions := [deleteFallbackSession t1 t2 t3]\<rparr>"
      using e by (simp add: handleDeleteSession_def Let_def)
    show "currentSessionId ?st' = id_s (deleteFallbackSession t1 t2 t3)"
      by (simp add: deleteSession_def afterRender_frame h)
    show "messages ?st' = messages_s (deleteFallbackSession t1 t2 t3)"
      by (simp add: deleteSession_def afterRender_frame h)
    show "chatSessions ?st' = [deleteFallbackSession t1 t2 t3]"
      by (simp add: deleteSession_def afterRender_def syncEffect_def
            saveCurrentSession_def Let_def h deleteFallbackSession_def cong: if_cong)
  }
  show "length (messages_s (deleteFallbackSession t1 t2 t3)) = 1"
    by (simp add: deleteFallbackSession_def)
  show "type_m (hd (messages_s (deleteFallbackSession t1 t2 t3))) = Bot"
    by (simp add: deleteFallbackSession_def)
qed

text \<open>
  Deleting the active session A of the example state promotes B; deleting the only session
  of the single-session state leaves the synthesised one.
\<close>

theorem deleteSession_active_witness:
  "currentSessionId exState = js ''A''
   \<and> filter (\<lambda>s. id_s s \<noteq> js ''A'') (chatSessions exState) = [exB]
   \<and> currentSessionId (deleteSession refPlatform 5 6 7 (js ''A'') exState) = js ''B''
   \<and> messages (deleteSession refPlatform 5 6 7 (js ''A'') exState) = messages_s exB
   \<and> chatSessions (deleteSession refPlatform 5 6 7 (js ''A'') exState) = [exB]
   \<and> currentSessionId exSingle = js ''A''
   \<and> filter (\<lambda>s. id_s s \<noteq> js ''A'') (chatSessions exSingle) = []
   \<and> chatSessions (deleteSession refPlatform 5 6 7 (js ''A'') exSingle)
       = [deleteFallbackSession 5 6 7]
   \<and> currentSessionId (deleteSession refPlatform 5 6 7 (js ''A'') exSingle) = js ''5''
   \<and> map content (messages (deleteSession refPlatform 5 6 7 (js ''A'') exSingle))
       = [js ''Hello! I'm your Business Intelligence assistant. What can I help you analyze?'']"
  using deleteSession_active [where st = exState and sessionId = "js ''A''"
      and P = refPlatform and ?t1.0 = 5 and ?t2.0 = 6 and ?t3.0 = 7]
    deleteSession_active [where st = exSingle and sessionId = "js ''A''"
      and P = refPlatform and ?t1.0 = 5 and ?t2.0 = 6 and ?t3.0 = 7]
  by (simp add: exState_def exSingle_def exA_def exB_def js_def countsConsistent_def
      newChatGreeting_def deleteFallbackSession_def Number_toString_def digitsOf.simps)

section \<open>Renaming a session\<close>

text \<open>\<open>handleRenameSession\<close> itself stores whatever title it is given.\<close>

lemma handleRenameSession_sessions:
  "chatSessions (handleRenameSession P sessionId newTitle st)
     = map (\<lambda>s. if id_s s = sessionId then s\<lparr>title := newTitle\<rparr> else s) (chatSessions st)"
  by (simp add: handleRenameSession_def Let_def)

text \<open>
  Claim C2.  The guard is in \<open>handleSaveEdit\<close>, the only caller: a title whose trimmed
  form is empty (empty or white space only) leaves the session list, hence every title,
  and the storage slot unchanged; any other title sets the titles of the sessions with the
  given id to its trimmed form.
\<close>

theorem renameSession_blank_title:
  "(trim newTitle = [] \<longrightarrow>
      chatSessions (renameSession P sessionId newTitle st) = chatSessions st
      \<and> localStorage (renameSession P sessionId newTitle st) = localStorage st)
   \<and> (trim newTitle \<noteq> [] \<longrightarrow>
      chatSessions (renameSession P sessionId newTitle st)
        = map (\<lambda>s. if id_s s = sessionId then s\<lparr>title := trim newTitle\<rparr> else s)
            (chatSessions st))"
  by (simp add: renameSession_def handleSaveEdit_def handleRenameSession_def Let_def
      afterRender_def)

text \<open>
  In the example state, a title of a space, a tab, a no-break space and a line separator
  changes nothing, and the title \<open>"  Q3 sales "\<close> renames session B to \<open>"Q3 sales"\<close>.
\<close>

theorem renameSession_blank_title_witness:
  "trim (js '' '' @ [9, 160, 8232]) = []
   \<and> listed (js ''B'') exState
   \<and> chatSessions (renameSession refPlatform (js ''B'') (js '' '' @ [9, 160, 8232]) exState)
       = [exA, exB]
   \<and> trim (js ''  Q3 sales '') = js ''Q3 sales''
   \<and> chatSessions (renameSession refPlatform (js ''B'') (js ''  Q3 sales '') exState)
       = [exA, exB\<lparr>title := js ''Q3 sales''\<rparr>]"
  using renameSession_blank_title [where newTitle = "js '' '' @ [9, 160, 8232]"
      and sessionId = "js ''B''" and st = exState and P = refPlatform]
    renameSession_blank_title [where newTitle = "js ''  Q3 sales ''"
      and sessionId = "js ''B''" and st = exState and P = refPlatform]
  by (simp add: trim_def isWhiteSpace_def listed_def exState_def exA_def exB_def js_def)

section \<open>Sending a message\<close>

text \<open>
  Claim C7.  Whatever \<open>Math.random() * 3\<close> and the clock give, exactly one of the three
  shapes holds of the response: text only, a chart specification, or table data.  It is a
  message of the assistant and always has text.
\<close>

theorem botResponse_one_shape:
  "length (filter id (populatedShapes (botResponse r t1 t2))) = 1
   \<and> type_m (botResponse r t1 t2) = Bot
   \<and> content (botResponse r t1 t2) \<noteq> []"
  by (simp add: populatedShapes_def botResponse_def Let_def js_def textResponseContent_def)

text \<open>The three shapes, for the products 0, 3/2 and 27/10.\<close>

theorem botResponse_one_shape_witness:
  "populatedShapes (botResponse 0 5 6) = [False, True, False]
   \<and> populatedShapes (botResponse (3 / 2) 5 6) = [False, False, True]
   \<and> populatedShapes (botResponse (27 / 10) 5 6) = [True, False, False]
   \<and> length (filter id (populatedShapes (botResponse (3 / 2) 5 6))) = 1"
  using botResponse_one_shape [of "3 / 2" 5 6]
  by (simp add: populatedShapes_def botResponse_def Let_def floor_eq_iff)

text \<open>
  Claim C6.  When the trimmed input is not empty, \<open>sendMessage\<close> appends one message of
  the user with that text to the transcript at once and schedules one callback; when the
  callback runs, it appends one message of the assistant; the transcript is then two
  messages longer than before the send.
\<close>

theorem sendMessage_appends_two:
  assumes "trim (inputMessage st) \<noteq> []"
  shows "messages (sendMessage P t1 t2 st)
           = messages st @ [\<lparr>id_m = Number_toString t1, type_m = User,
                             content = trim (inputMessage st), timestamp_m = TimeValue t2,
                             chartSpec = None, tableData = None\<rparr>]
       \<and> timeouts (sendMessage P t1 t2 st) = timeouts st @ [2000]
       \<and> isTyping (sendMessage P t1 t2 st)
       \<and> messages (responseArrives P r t3 t4 (sendMessage P t1 t2 st))
           = messages (sendMessage P t1 t2 st) @ [botResponse r t3 t4]
       \<and> type_m (botResponse r t3 t4) = Bot
       \<and> length (messages (responseArrives P r t3 t4 (sendMessage P t1 t2 st)))
           = length (messages st) + 2"
  using assms
  by (simp add: sendMessage_def responseArrives_def handleSendMessage_def
      timeoutCallback_def afterRender_frame Let_def botResponse_def split: list.splits)



text \<open>
  The example state holds one greeting; sending \<open>" show me sales "\<close> gives two messages
  at once and three after the response.
\<close>

theorem sendMessage_appends_two_witness:
  "trim (inputMessage exInput) = js ''show me sales''
   \<and> length (messages exInput) = 1
   \<and> length (messages (sendMessage refPlatform 10 11 exInput)) = 2
   \<and> map type_m (messages (responseArrives refPlatform (3 / 2) 12 13
                              (sendMessage refPlatform 10 11 exInput)))
       = [Bot, User, Bot]
   \<and> map content (messages (sendMessage refPlatform 10 11 exInput))
       = [content (newChatGreeting 1700000000000), js ''show me sales'']"
proof -
  have t: "trim (inputMessage exInput) = js ''show me sales''"
    by (simp add: exInput_def exState_def trim_def isWhiteSpace_def js_def)
  then have n: "trim (inputMessage exInput) \<noteq> []"
    by (simp add: js_def)
  have m: "messages exInput = [newChatGreeting 1700000000000]"
    by (simp add: exInput_def exState_def exA_def)
  show ?thesis
    using sendMessage_appends_two [OF n, of refPlatform 10 11 "3 / 2" 12 13] t m
    by (simp add: newChatGreeting_def)
qed

text \<open>
  Whenever a scheduled callback runs, in whatever state, it appends exactly one message, a
  response of the assistant, and it is no longer pending.
\<close>

lemma responseArrives_appends_one:
  assumes "timeouts st \<noteq> []"
  shows "messages (responseArrives P r t1 t2 st) = messages st @ [botResponse r t1 t2]"
    and "timeouts (responseArrives P r t1 t2 st) = tl (timeouts st)"
    and "\<not> isTyping (responseArrives P r t1 t2 st)"
  using assms
  by (simp_all add: responseArrives_def timeoutCallback_def afterRender_frame
      split: list.splits)

text \<open>
  While a response is awaited the input is empty in every state the page can reach: the
  send cleared it and the disabled text area accepts no input.
\<close>

lemma dispatch_typing_input:
  assumes "isTyping st \<longrightarrow> inputMessage st = []"
  shows "isTyping (dispatch P ev st) \<longrightarrow> inputMessage (dispatch P ev st) = []"
  using assms
  by (cases ev)
     (auto simp: dispatch_def newChat_def selectSession_def deleteSession_def sendMessage_def
        responseArrives_def afterRender_frame handleNewChat_def handleSelectSession_def
        handleDeleteSession_def handleSendMessage_def handleKeyPress_def timeoutCallback_def
        handleStartEdit_def handleSaveEdit_def handleRenameSession_def handleCancelEdit_def
        Let_def split: option.splits list.splits if_splits)

lemma reachable_typing_input:
  "reachable P st \<Longrightarrow> isTyping st \<longrightarrow> inputMessage st = []"
proof (induction rule: reachable.induct)
  case (mounted slot savedSessions t1 t2)
  show ?case
    by (simp add: afterRender_frame initEffect_def initialState_def)
next
  case (step st ev)
  from step.IH show ?case by (rule dispatch_typing_input)
qed

text \<open>
  Claim C3.  In a state that awaits a response, the send button and the key presses of
  the text area do nothing at all (both are disabled); and in every such state that the
  page can reach, \<open>handleSendMessage\<close> itself returns at its first line, with or
  without the render that follows: no message is appended, no callback is scheduled, the
  transcript and the input are unchanged.
\<close>

theorem send_while_awaiting_noop:
  assumes "isTyping st"
  shows "dispatch P (ClickSend t1 t2) st = st
       \<and> dispatch P (KeyDown key shiftKey t1 t2) st = st
       \<and> (reachable P st \<longrightarrow> handleSendMessage t1 t2 st = st \<and> sendMessage P t1 t2 st = st)"
proof (intro conjI impI)
  show "dispatch P (ClickSend t1 t2) st = st"
    using assms by (simp add: dispatch_def)
  show "dispatch P (KeyDown key shiftKey t1 t2) st = st"
    using assms by (simp add: dispatch_def)
  assume "reachable P st"
  then have e: "inputMessage st = []"
    using assms reachable_typing_input by blast
  then show h: "handleSendMessage t1 t2 st = st"
    by (simp add: handleSendMessage_def trim_def)
  show "sendMessage P t1 t2 st = st"
    by (simp add: sendMessage_def h afterRender_def)
qed

text \<open>The state awaiting the response of the example question is reachable.\<close>

lemma exAwaiting_reachable: "reachable refPlatform exAwaiting"
  unfolding exAwaiting_def exMounted_def
  by (intro reachable.step reachable.mounted)
     (simp add: loadChatSessions_def loadChatSessions_try_def)

lemma exAwaiting_typing: "isTyping exAwaiting \<and> length (messages exAwaiting) = 2"
  by (simp add: exAwaiting_def exMounted_def dispatch_def sendMessage_def afterRender_frame
      handleSendMessage_def initEffect_def initialState_def initialSession_def Let_def
      trim_def isWhiteSpace_def js_def)

theorem send_while_awaiting_noop_witness:
  "isTyping exAwaiting
   \<and> length (messages exAwaiting) = 2
   \<and> dispatch refPlatform (ClickSend 20 21) exAwaiting = exAwaiting
   \<and> dispatch refPlatform (KeyDown (js ''Enter'') False 20 21) exAwaiting = exAwaiting
   \<and> handleSendMessage 20 21 exAwaiting = exAwaiting"
  using send_while_awaiting_noop [of exAwaiting refPlatform 20 21 "js ''Enter''" False]
    exAwaiting_reachable exAwaiting_typing
  by simp

section \<open>The cached message count\<close>

lemma countsConsistent_syncEffect:
  "countsConsistent (chatSessions st) \<Longrightarrow> countsConsistent (chatSessions (syncEffect P st))"
  by (auto simp: syncEffect_def saveCurrentSession_def Let_def countsConsistent_def
      list_all_iff)

lemma countsConsistent_afterRender:
  "countsConsistent (chatSessions new) \<Longrightarrow>
   countsConsistent (chatSessions (afterRender P old new))"
  by (simp add: afterRender_def countsConsistent_syncEffect)

lemma countsConsistent_mounted:
  "countsConsistent savedSessions \<Longrightarrow>
   countsConsistent (chatSessions (afterRender P (initialState slot)
                       (initEffect P t1 t2 savedSessions (initialState slot))))"
  by (rule countsConsistent_afterRender)
     (simp add: initEffect_def initialSession_def countsConsistent_def)

lemma countsConsistent_newChat:
  "countsConsistent (chatSessions st) \<Longrightarrow>
   countsConsistent (chatSessions (newChat P t1 t2 t3 st))"
  unfolding newChat_def
  by (rule countsConsistent_afterRender)
     (simp add: handleNewChat_def Let_def countsConsistent_def)

lemma countsConsistent_selectSession:
  "countsConsistent (chatSessions st) \<Longrightarrow>
   countsConsistent (chatSessions (selectSession P sessionId st))"
  unfolding selectSession_def
  by (rule countsConsistent_afterRender)
     (simp add: handleSelectSession_def Let_def split: option.splits)

lemma countsConsistent_deleteSession:
  "countsConsistent (chatSessions st) \<Longrightarrow>
   countsConsistent (chatSessions (deleteSession P t1 t2 t3 sessionId st))"
  unfolding deleteSession_def
  by (rule countsConsistent_afterRender)
     (auto simp: handleDeleteSession_def Let_def deleteFallbackSession_def
        countsConsistent_def list_all_iff)

lemma countsConsistent_handleSaveEdit:
  "countsConsistent (chatSessions st) \<Longrightarrow>
   countsConsistent (chatSessions (handleSaveEdit P sessionId st))"
  by (auto simp: handleSaveEdit_def handleRenameSession_def Let_def countsConsistent_def
      list_all_iff)

lemma countsConsistent_renameSession:
  "countsConsistent (chatSessions st) \<Longrightarrow>
   countsConsistent (chatSessions (renameSession P sessionId newTitle st))"
  unfolding renameSession_def
  by (rule countsConsistent_afterRender, rule countsConsistent_handleSaveEdit) simp

lemma countsConsistent_sendMessage:
  "countsConsistent (chatSessions st) \<Longrightarrow>
   countsConsistent (chatSessions (sendMessage P t1 t2 st))"
  unfolding sendMessage_def
  by (rule countsConsistent_afterRender) (simp add: handleSendMessage_def Let_def)

lemma countsConsistent_responseArrives:
  "countsConsistent (chatSessions st) \<Longrightarrow>
   countsConsistent (chatSessions (responseArrives P r t1 t2 st))"
  by (auto simp: responseArrives_def timeoutCallback_def split: list.splits
      intro!: countsConsistent_afterRender)

lemma countsConsistent_dispatch:
  assumes "countsConsistent (chatSessions st)"
  shows "countsConsistent (chatSessions (dispatch P ev st))"
proof (cases ev)
  case (KeyDown key shiftKey t1 t2)
  then show ?thesis
    using assms
    by (auto simp: dispatch_def handleKeyPress_def handleSendMessage_def Let_def
        intro!: countsConsistent_afterRender)
next
  case (StartEdit session)
  then show ?thesis
    using assms
    by (auto simp: dispatch_def handleStartEdit_def intro!: countsConsistent_afterRender)
next
  case SaveEdit
  then show ?thesis
    using assms
    by (auto simp: dispatch_def split: option.splits
        intro!: countsConsistent_afterRender countsConsistent_handleSaveEdit)
qed (use assms in \<open>auto simp: dispatch_def countsConsistent_newChat
      countsConsistent_selectSession countsConsistent_deleteSession
      countsConsistent_sendMessage countsConsistent_responseArrives handleCancelEdit_def
      split: option.splits intro!: countsConsistent_afterRender\<close>)

text \<open>
  Claim C8.  If every session of the list has a count equal to the length of its
  transcript, this is so again after each operation together with the persistence step
  that follows it (new chat, delete, rename, send, the arrival of the response, select),
  and after every event of the page.
\<close>

theorem messageCount_consistent:
  assumes "countsConsistent (chatSessions st)"
  shows "countsConsistent (chatSessions (newChat P t1 t2 t3 st))
       \<and> countsConsistent (chatSessions (deleteSession P t1 t2 t3 sessionId st))
       \<and> countsConsistent (chatSessions (renameSession P sessionId newTitle st))
       \<and> countsConsistent (chatSessions (sendMessage P t1 t2 st))
       \<and> countsConsistent (chatSessions (responseArrives P r t1 t2 st))
       \<and> countsConsistent (chatSessions (selectSession P sessionId st))
       \<and> countsConsistent (chatSessions (dispatch P ev st))"
  using assms
  by (simp add: countsConsistent_newChat countsConsistent_deleteSession
      countsConsistent_renameSession countsConsistent_sendMessage
      countsConsistent_responseArrives countsConsistent_selectSession
      countsConsistent_dispatch)


text \<open>After the example question is sent, both sessions have two messages and count 2.\<close>

theorem messageCount_consistent_witness:
  "countsConsistent (chatSessions exInput)
   \<and> map messageCount (chatSessions (sendMessage refPlatform 10 11 exInput)) = [2, 2]
   \<and> map (\<lambda>s. length (messages_s s)) (chatSessions (sendMessage refPlatform 10 11 exInput))
       = [2, 2]
   \<and> countsConsistent (chatSessions (sendMessage refPlatform 10 11 exInput))"
proof -
  have c: "countsConsistent (chatSessions exInput)"
    by (simp add: countsConsistent_def exInput_def exState_def exA_def exB_def)
  have t: "trim (inputMessage exInput) = js ''show me sales''"
    by (simp add: exInput_def exState_def trim_def isWhiteSpace_def js_def)
  have s: "chatSessions (sendMessage refPlatform 10 11 exInput)
      = [exA\<lparr>messages_s := messages (sendMessage refPlatform 10 11 exInput), messageCount := 2\<rparr>,
         exB]"
    using t
    by (simp add: sendMessage_def afterRender_def syncEffect_def saveCurrentSession_def
        handleSendMessage_def Let_def exInput_def exState_def exA_def exB_def js_def
        cong: if_cong)
  have m: "length (messages (sendMessage refPlatform 10 11 exInput)) = 2"
    using t
    by (simp add: sendMessage_def afterRender_frame handleSendMessage_def Let_def
        exInput_def exState_def exA_def js_def)
  show ?thesis
    using messageCount_consistent [OF c, of refPlatform 10 11 0 "js ''A''" "js ''T''" 0
        "NewChat 0 0 0"] c s m
    by (simp add: exB_def)
qed

text \<open>
  The persistence step after a send stores the new transcript and its length in the
  sessions with the active id.
\<close>

lemma sendMessage_resyncs_active:
  assumes "trim (inputMessage st) \<noteq> []" and "currentSessionId st \<noteq> []"
  shows "list_all (\<lambda>s. id_s s = currentSessionId st \<longrightarrow>
            messages_s s = messages (sendMessage P t1 t2 st)
            \<and> messageCount s = int (length (messages st)) + 1)
          (chatSessions (sendMessage P t1 t2 st))"
  using assms
  by (auto simp: sendMessage_def afterRender_def syncEffect_def saveCurrentSession_def
      handleSendMessage_def Let_def list_all_iff)

section \<open>The session store: saving and loading\<close>

text \<open>
  The replacer never meets a \<open>Date\<close>, because \<open>toJSON\<close> has run before it; so
  \<open>JSON.stringify\<close> never throws, and it returns a plain JSON value unchanged.
\<close>

lemma replacer_toJSON: "replacer P key (toJSON P v) = Inr (toJSON P v)"
  by (simp add: replacer_def toJSON_def split: val.splits jsdate.splits)

lemma serialize_returns:
  "\<exists>d. serializeJSONProperty P key v = Inr d"
  "\<exists>d. serializeValue P v = Inr d"
  "\<exists>ds. serializeElements P i xs = Inr ds"
  "\<exists>qs. serializeProperties P ps = Inr qs"
proof (induction P key v and P v and P i xs and P ps
    rule: serializeJSONProperty_serializeValue_serializeElements_serializeProperties.induct)
  case (1 P key v)
  then show ?case by (simp add: replacer_toJSON)
qed auto

lemma JSON_stringify_returns: "\<exists>text. JSON_stringify P v = Inr text"
  using serialize_returns(1) [of P "[]" v] by (auto simp: JSON_stringify_def)

lemma saveChatSessions_writes: "\<exists>text. saveChatSessions P sessions slot = Some text"
  using JSON_stringify_returns [of P "VArr (map valOfSession sessions)"]
  by (auto simp: saveChatSessions_def)

lemma serialize_plain:
  "plain v \<Longrightarrow> serializeJSONProperty P key v = Inr v"
  "plain v \<Longrightarrow> serializeValue P v = Inr v"
  "list_all plain xs \<Longrightarrow> serializeElements P i xs = Inr xs"
  "list_all (\<lambda>p. plain (snd p)) ps \<Longrightarrow> serializeProperties P ps = Inr ps"
proof (induction P key v and P v and P i xs and P ps
    rule: serializeJSONProperty_serializeValue_serializeElements_serializeProperties.induct)
  case (1 P key v)
  then show ?case
    by (cases v) (simp_all add: replacer_def toJSON_def)
qed auto


text \<open>Property names are compared as the literals of the source.\<close>

lemma js_eq_iff [simp]: "js a = js b \<longleftrightarrow> a = b"
proof -
  have "inj (of_char :: char \<Rightarrow> nat)"
    by (simp add: inj_def)
  then show ?thesis
    by (simp add: js_def inj_map_eq_map)
qed

text \<open>What \<open>saveChatSessions\<close> writes for typed sessions.\<close>

lemma serialize_container:
  "serializeJSONProperty P key (VObj ps)
     = (case serializeProperties P ps of Inl e \<Rightarrow> Inl e | Inr qs \<Rightarrow> Inr (VObj qs))"
  "serializeJSONProperty P key (VArr xs)
     = (case serializeElements P 0 xs of Inl e \<Rightarrow> Inl e | Inr ys \<Rightarrow> Inr (VArr ys))"
  "serializeJSONProperty P key (VDate d) = Inr (toJSON P (VDate d))"
  by (simp_all add: replacer_def toJSON_def split: jsdate.splits)

lemma serialize_message:
  assumes "plainMessage m"
  shows "serializeJSONProperty P key (valOfMessage m) = Inr (messageJSON P m)"
  using assms
  by (cases "chartSpec m"; cases "tableData m")
     (simp_all add: plainMessage_def valOfMessage_def messageJSON_def serialize_container
        serialize_plain del: serializeJSONProperty.simps)

lemma serialize_messages:
  "list_all plainMessage ms \<Longrightarrow>
   serializeElements P i (map valOfMessage ms) = Inr (map (messageJSON P) ms)"
  by (induction ms arbitrary: i)
     (simp_all add: serialize_message del: serializeJSONProperty.simps)

lemma serialize_session:
  assumes "list_all plainMessage (messages_s s)"
  shows "serializeJSONProperty P key (valOfSession s) = Inr (sessionJSON P s)"
  using assms
  by (simp add: valOfSession_def sessionJSON_def serialize_container serialize_plain
      serialize_messages del: serializeJSONProperty.simps)

lemma serialize_sessions:
  "list_all (\<lambda>s. list_all plainMessage (messages_s s)) S \<Longrightarrow>
   serializeElements P i (map valOfSession S) = Inr (map (sessionJSON P) S)"
  by (induction S arbitrary: i)
     (simp_all add: serialize_session del: serializeJSONProperty.simps)

lemma saveChatSessions_document:
  assumes "list_all (\<lambda>s. list_all plainMessage (messages_s s)) S"
  shows "saveChatSessions P S slot = Some (JSONText (VArr (map (sessionJSON P) S)))"
  using assms
  by (simp add: saveChatSessions_def JSON_stringify_def serialize_container
      serialize_sessions del: serializeJSONProperty.simps)

text \<open>What \<open>loadChatSessions\<close> makes of that document.\<close>

lemma revive_message:
  assumes "Date_new P (Some (toJSON P (VDate (timestamp_m m)))) = Inr d"
  shows "reviveMessage P (messageJSON P m) = Inr (valOfMessage (m\<lparr>timestamp_m := d\<rparr>))"
  using assms
  by (cases "chartSpec m"; cases "tableData m")
     (simp_all add: reviveMessage_def getProp_def spread_def valOfMessage_def messageJSON_def)

lemma revive_messages:
  assumes "\<forall>m \<in> set ms. Date_new P (Some (toJSON P (VDate (timestamp_m m)))) = Inr (f (timestamp_m m))"
  shows "mapE (reviveMessage P) (map (messageJSON P) ms)
     = Inr (map (\<lambda>m. valOfMessage (m\<lparr>timestamp_m := f (timestamp_m m)\<rparr>)) ms)"
  using assms by (induction ms) (simp_all add: revive_message)

lemma revive_session:
  assumes "Date_new P (Some (toJSON P (VDate (timestamp_s s)))) = Inr (f (timestamp_s s))"
    and "\<forall>m \<in> set (messages_s s).
           Date_new P (Some (toJSON P (VDate (timestamp_m m)))) = Inr (f (timestamp_m m))"
  shows "reviveSession P (sessionJSON P s) = Inr (valOfSession (restoreTimestamps f s))"
  using assms(1) revive_messages [OF assms(2)]
  by (simp add: reviveSession_def getProp_def spread_def sessionJSON_def reviveMessages_def
      valOfSession_def restoreTimestamps_def comp_def)

lemma revive_sessions:
  assumes "\<forall>d \<in> set (timestampsOf S). Date_new P (Some (toJSON P (VDate d))) = Inr (f d)"
  shows "mapE (reviveSession P) (map (sessionJSON P) S)
     = Inr (map (\<lambda>s. valOfSession (restoreTimestamps f s)) S)"
  using assms
  by (induction S) (simp_all add: timestampsOf_def revive_session)

text \<open>
  Claim C4.  Let \<open>S\<close> be a list of sessions whose payloads are plain JSON, and let the
  platform's \<open>Date\<close> constructor turn the serialised form of every timestamp \<open>d\<close> of
  \<open>S\<close> into the date \<open>f d\<close>.  Then loading what \<open>saveChatSessions\<close> wrote returns
  the sessions of \<open>S\<close> in their order, every field as it was and every timestamp
  \<open>d\<close> replaced by \<open>f d\<close>; on a platform that parses back each ISO-8601 string it
  printed (\<open>f d = d\<close>), the result is \<open>S\<close> itself.
\<close>

theorem load_save_roundtrip:
  assumes "plainPayloads S"
    and "\<forall>d \<in> set (timestampsOf S). Date_new P (Some (toJSON P (VDate d))) = Inr (f d)"
  shows "loadChatSessions P (saveChatSessions P S slot)
           = Inr (map (\<lambda>s. valOfSession (restoreTimestamps f s)) S)
       \<and> ((\<forall>d \<in> set (timestampsOf S). f d = d) \<longrightarrow>
            loadChatSessions P (saveChatSessions P S slot) = Inr (map valOfSession S))"
proof -
  have p: "list_all (\<lambda>s. list_all plainMessage (messages_s s)) S"
    using assms(1) by (simp add: plainPayloads_def)
  have l: "loadChatSessions P (saveChatSessions P S slot)
      = Inr (map (\<lambda>s. valOfSession (restoreTimestamps f s)) S)"
    by (simp add: saveChatSessions_document [OF p] loadChatSessions_def
        loadChatSessions_try_def JSON_parse_def revive_sessions [OF assms(2)])
  have "map (\<lambda>s. valOfSession (restoreTimestamps f s)) S = map valOfSession S"
    if "\<forall>d \<in> set (timestampsOf S). f d = d"
  proof -
    have "restoreTimestamps f s = s" if "s \<in> set S" for s
    proof -
      have "f (timestamp_s s) = timestamp_s s"
        using \<open>\<forall>d \<in> set (timestampsOf S). f d = d\<close> that by (auto simp: timestampsOf_def)
      moreover have "map (\<lambda>m. m\<lparr>timestamp_m := f (timestamp_m m)\<rparr>) (messages_s s) = messages_s s"
        using \<open>\<forall>d \<in> set (timestampsOf S). f d = d\<close> that
        by (intro map_idI) (auto simp: timestampsOf_def)
      ultimately show ?thesis by (simp add: restoreTimestamps_def)
    qed
    then show ?thesis by simp
  qed
  with l show ?thesis by simp
qed


text \<open>The stored example list on the reference platform.\<close>

lemma exStored_timestamps:
  "timestampsOf exStored =
     map TimeValue [1700000000000, 1700000000000, 1700000050000, 1700000050000,
                    1700000060000, 1700000062000, 1700000064000]"
  by (simp add: timestampsOf_def exStored_def exA_def exB_def newChatGreeting_def
      botResponse_def Let_def floor_eq_iff)

lemma refPlatform_iso:
  "isoString 1700000000000 = js ''2023-11-14T22:13:20.000Z''"
  "parseISO (js ''2023-11-14T22:13:20.000Z'') = TimeValue 1700000000000"
  "parseISO (isoString 1700000000000) = TimeValue 1700000000000"
  "parseISO (isoString 1700000050000) = TimeValue 1700000050000"
  "parseISO (isoString 1700000060000) = TimeValue 1700000060000"
  "parseISO (isoString 1700000062000) = TimeValue 1700000062000"
  "parseISO (isoString 1700000064000) = TimeValue 1700000064000"
  by code_simp+

lemma exStored_plain: "plainPayloads exStored"
  by (simp add: plainPayloads_def plainMessage_def exStored_def exA_def exB_def
      newChatGreeting_def botResponse_def Let_def floor_eq_iff chartResponseSpec_def
      tableResponseData_def salesRow_def)

theorem load_save_roundtrip_witness:
  "plainPayloads exStored
   \<and> length (timestampsOf exStored) = 7
   \<and> Date_toISOString refPlatform 1700000000000 = js ''2023-11-14T22:13:20.000Z''
   \<and> Date_new refPlatform (Some (VStr (js ''2023-11-14T22:13:20.000Z'')))
       = Inr (TimeValue 1700000000000)
   \<and> loadChatSessions refPlatform (saveChatSessions refPlatform exStored None)
       = Inr (map valOfSession exStored)"
proof -
  have h: "\<forall>d \<in> set (timestampsOf exStored).
      Date_new refPlatform (Some (toJSON refPlatform (VDate d))) = Inr d"
    by (simp add: exStored_timestamps refPlatform_def toJSON_def newDate_def refPlatform_iso)
  have i: "Date_new refPlatform (Some (VStr (js ''2023-11-14T22:13:20.000Z'')))
       = Inr (TimeValue 1700000000000)"
    by (simp add: refPlatform_def newDate_def refPlatform_iso(2))
  have r: "loadChatSessions refPlatform (saveChatSessions refPlatform exStored None)
       = Inr (map valOfSession exStored)"
    using conjunct2 [OF load_save_roundtrip [OF exStored_plain h, of None]] by simp
  have t: "Date_toISOString refPlatform 1700000000000 = js ''2023-11-14T22:13:20.000Z''"
    by (simp add: refPlatform_def refPlatform_iso(1))
  show ?thesis
    using r i t exStored_plain by (simp add: exStored_timestamps)
qed

text \<open>The callbacks throw exactly on those elements.\<close>

lemma getProp_propOf: "v \<noteq> VNull \<Longrightarrow> getProp k v = Inr (propOf k v)"
  by (cases v) (simp_all add: getProp_def propOf_def)

lemma mapE_isl: "isl (mapE f xs) = list_ex (\<lambda>x. isl (f x)) xs"
  by (induction xs) (auto split: sum.splits)

lemma mapE_all_return:
  "\<not> list_ex (\<lambda>x. isl (f x)) xs \<Longrightarrow> mapE f xs = Inr (map (\<lambda>x. projr (f x)) xs)"
  by (induction xs) (auto split: sum.splits)

lemma reviveMessage_throws: "isl (reviveMessage P msg) = messageThrows P msg"
proof (cases "msg = VNull")
  case True
  then show ?thesis
    by (simp add: reviveMessage_def getProp_def messageThrows_def)
next
  case False
  then show ?thesis
    by (simp add: reviveMessage_def getProp_propOf messageThrows_def split: sum.splits)
qed

lemma reviveMessages_throws: "isl (reviveMessages P m) = messagesThrow P m"
  by (simp add: reviveMessages_def messagesThrow_def mapE_isl reviveMessage_throws
      split: option.splits val.splits)

lemma reviveSession_throws: "isl (reviveSession P session) = sessionThrows P session"
proof (cases "session = VNull")
  case True
  then show ?thesis
    by (simp add: reviveSession_def getProp_def sessionThrows_def)
next
  case False
  then show ?thesis
    using reviveMessages_throws [of P "propOf (js ''messages'') session"]
    by (auto simp: reviveSession_def getProp_propOf sessionThrows_def split: sum.splits)
qed

text \<open>
  Claim C9, as amended.  For every content of the storage slot \<open>loadChatSessions\<close>
  returns a list and raises nothing.  The list is empty when the slot is absent, holds the
  empty text or text that is not JSON, or holds JSON that is not an array.  A JSON array is
  not checked for the shape of its elements: the result is empty when reviving some
  element throws, and otherwise it has exactly one entry per element, the revived element,
  in order.
\<close>

theorem loadChatSessions_fails_soft:
  "(\<exists>loaded. loadChatSessions P slot = Inr loaded)
   \<and> (slot = None \<or> slot = Some EmptyText \<or> slot = Some NotJSON \<longrightarrow>
        loadChatSessions P slot = Inr [])
   \<and> (\<not> isArray parsed \<longrightarrow> loadChatSessions P (Some (JSONText parsed)) = Inr [])
   \<and> (list_ex (sessionThrows P) sessions \<longrightarrow>
        loadChatSessions P (Some (JSONText (VArr sessions))) = Inr [])
   \<and> (\<not> list_ex (sessionThrows P) sessions \<longrightarrow>
        loadChatSessions P (Some (JSONText (VArr sessions)))
          = Inr (map (\<lambda>session. projr (reviveSession P session)) sessions))"
proof (intro conjI impI)
  show "\<exists>loaded. loadChatSessions P slot = Inr loaded"
    by (simp add: loadChatSessions_def split: sum.splits option.splits)
  show "loadChatSessions P slot = Inr []"
    if "slot = None \<or> slot = Some EmptyText \<or> slot = Some NotJSON"
    using that
    by (auto simp: loadChatSessions_def loadChatSessions_try_def JSON_parse_def)
  show "loadChatSessions P (Some (JSONText parsed)) = Inr []" if "\<not> isArray parsed"
    using that
    by (cases parsed)
       (simp_all add: isArray_def loadChatSessions_def loadChatSessions_try_def JSON_parse_def)
  show "loadChatSessions P (Some (JSONText (VArr sessions))) = Inr []"
    if "list_ex (sessionThrows P) sessions"
  proof -
    have "isl (mapE (reviveSession P) sessions)"
      using that by (simp add: mapE_isl reviveSession_throws)
    then show ?thesis
      by (cases "mapE (reviveSession P) sessions")
         (simp_all add: loadChatSessions_def loadChatSessions_try_def JSON_parse_def)
  qed
  show "loadChatSessions P (Some (JSONText (VArr sessions)))
          = Inr (map (\<lambda>session. projr (reviveSession P session)) sessions)"
    if "\<not> list_ex (sessionThrows P) sessions"
  proof -
    have "mapE (reviveSession P) sessions
        = Inr (map (\<lambda>session. projr (reviveSession P session)) sessions)"
      using that by (intro mapE_all_return) (simp add: reviveSession_throws)
    then show ?thesis
      by (simp add: loadChatSessions_def loadChatSessions_try_def JSON_parse_def)
  qed
qed

text \<open>
  On the reference platform: an absent slot, text that is not JSON and the JSON object
  \<open>{"sessions": []}\<close> load as the empty list; \<open>null\<close>, \<open>{"messages": [null]}\<close>,
  \<open>{"messages": 5}\<close> and \<open>{"timestamp": {"toString": 1}}\<close> throw, and the array
  \<open>[{}, {"messages": [null]}]\<close> loads as the empty list; \<open>1\<close> and \<open>"x"\<close> do not
  throw, and the array \<open>[1, "x"]\<close> loads as two entries.
\<close>

theorem loadChatSessions_fails_soft_witness:
  "loadChatSessions refPlatform None = Inr []
   \<and> loadChatSessions refPlatform (Some NotJSON) = Inr []
   \<and> \<not> isArray (VObj [(js ''sessions'', VArr [])])
   \<and> loadChatSessions refPlatform (Some (JSONText (VObj [(js ''sessions'', VArr [])]))) = Inr []
   \<and> sessionThrows refPlatform VNull
   \<and> sessionThrows refPlatform (VObj [(js ''messages'', VArr [VNull])])
   \<and> sessionThrows refPlatform (VObj [(js ''messages'', VNum 5)])
   \<and> sessionThrows refPlatform (VObj [(js ''timestamp'', VObj [(js ''toString'', VNum 1)])])
   \<and> loadChatSessions refPlatform
        (Some (JSONText (VArr [VObj [], VObj [(js ''messages'', VArr [VNull])]]))) = Inr []
   \<and> \<not> sessionThrows refPlatform (VNum 1)
   \<and> \<not> sessionThrows refPlatform (VStr (js ''x''))
   \<and> loadChatSessions refPlatform (Some (JSONText (VArr [VNum 1, VStr (js ''x'')])))
       = Inr [VObj [(js ''timestamp'', VDate InvalidDate), (js ''messages'', VArr [])],
              VObj [(js ''0'', VStr (js ''x'')), (js ''timestamp'', VDate InvalidDate),
                    (js ''messages'', VArr [])]]"
proof -
  have t: "sessionThrows refPlatform VNull
     \<and> sessionThrows refPlatform (VObj [(js ''messages'', VArr [VNull])])
     \<and> sessionThrows refPlatform (VObj [(js ''messages'', VNum 5)])
     \<and> sessionThrows refPlatform (VObj [(js ''timestamp'', VObj [(js ''toString'', VNum 1)])])
     \<and> \<not> sessionThrows refPlatform (VObj [])
     \<and> \<not> sessionThrows refPlatform (VNum 1)
     \<and> \<not> sessionThrows refPlatform (VStr (js ''x''))"
    by (simp add: sessionThrows_def messagesThrow_def messageThrows_def propOf_def
        refPlatform_def newDate_def)
  have r: "projr (reviveSession refPlatform (VNum 1))
       = VObj [(js ''timestamp'', VDate InvalidDate), (js ''messages'', VArr [])]
     \<and> projr (reviveSession refPlatform (VStr (js ''x'')))
       = VObj [(js ''0'', VStr (js ''x'')), (js ''timestamp'', VDate InvalidDate),
               (js ''messages'', VArr [])]"
    by (simp add: reviveSession_def getProp_def refPlatform_def newDate_def
        reviveMessages_def spread_def indexKeys_def Number_toString_def digitsOf.simps js_def)
  show ?thesis
    using loadChatSessions_fails_soft [of refPlatform None "VObj [(js ''sessions'', VArr [])]"
        "[VObj [], VObj [(js ''messages'', VArr [VNull])]]"]
      loadChatSessions_fails_soft [of refPlatform "Some NotJSON" VNull
        "[VNum 1, VStr (js ''x'')]"]
      t r
    by (simp add: isArray_def)
qed

text \<open>
  Claim C9 as stated fails for JSON of the wrong shape: the slot text \<open>[{}]\<close> loads as
  a list of one entry, an object with an invalid date and no messages.
\<close>

theorem loadChatSessions_wrong_shape_counterexample:
  "loadChatSessions refPlatform (Some (JSONText (VArr [VObj []])))
     = Inr [VObj [(js ''timestamp'', VDate InvalidDate), (js ''messages'', VArr [])]]
   \<and> loadChatSessions refPlatform (Some (JSONText (VArr [VObj []]))) \<noteq> Inr []"
  by (simp add: loadChatSessions_def loadChatSessions_try_def JSON_parse_def reviveSession_def
      getProp_def refPlatform_def newDate_def reviveMessages_def spread_def)

end
